theory Spec2Isabelle
  imports Complex_Main "HOL-Library.AList" "HOL-Library.Multiset"
begin

section \<open>Python values and exceptions\<close>

text \<open>
  The program is the single module \<^verbatim>\<open>parsex.py\<close>. Python strings are modelled as
  \<^typ>\<open>string\<close>, read as lists of code points below 256. On that range the regular
  expression class \<^verbatim>\<open>\d\<close> is exactly the ten ASCII digits, the regular expression dot
  matches everything but the line feed, and the only characters with one of X, P, R, T
  in their upper-case form are these letters and their small forms; the program
  upper-cases a string only to compare it with \<^verbatim>\<open>XXX\<close> or to search it for \<^verbatim>\<open>PRT\<close>, so
  upper-casing is modelled on the ASCII letters. Every exception the modelled code can
  raise is a value of \<open>error\<close>; a fallible computation returns \<open>error + 'a\<close> with
  \<open>Inl\<close> for the raise.
\<close>

datatype error =
    ValueError | KeyError | TypeError | IndexError | ZeroDivisionError
  | SyntaxError | AttributeError | OSError | JSONDecodeError

subsection \<open>String and list primitives\<close>

text \<open>\<^verbatim>\<open>s.split(sep)\<close> for a one-character separator: never empty, one more piece than
  there are separators.\<close>

fun split_on :: "char \<Rightarrow> string \<Rightarrow> string list" where
  "split_on sep [] = [[]]"
| "split_on sep (c # cs) =
     (if c = sep then [] # split_on sep cs
      else (case split_on sep cs of
              [] \<Rightarrow> [[c]]
            | w # ws \<Rightarrow> (c # w) # ws))"

text \<open>\<^verbatim>\<open>sep.join(parts)\<close>.\<close>

fun join :: "string \<Rightarrow> string list \<Rightarrow> string" where
  "join sep [] = []"
| "join sep [x] = x"
| "join sep (x # y # ys) = x @ sep @ join sep (y # ys)"

text \<open>\<^verbatim>\<open>s.replace(a, b)\<close> for one-character \<open>a\<close> and \<open>b\<close>.\<close>

definition replace_char :: "char \<Rightarrow> char \<Rightarrow> string \<Rightarrow> string" where
  "replace_char a b s = map (\<lambda>c. if c = a then b else c) s"

definition upper_char :: "char \<Rightarrow> char" where
  "upper_char c =
     (case map_of (zip ''abcdefghijklmnopqrstuvwxyz'' ''ABCDEFGHIJKLMNOPQRSTUVWXYZ'') c of
        Some u \<Rightarrow> u
      | None \<Rightarrow> c)"

text \<open>\<^verbatim>\<open>s.upper()\<close> on ASCII letters.\<close>

definition upper :: "string \<Rightarrow> string" where
  "upper s = map upper_char s"

text \<open>\<^verbatim>\<open>xs.index(x)\<close>: the first position of \<open>x\<close>, ValueError when it is absent.\<close>

fun index_of :: "'a \<Rightarrow> 'a list \<Rightarrow> error + nat" where
  "index_of x [] = Inl ValueError"
| "index_of x (y # ys) =
     (if y = x then Inr 0
      else (case index_of x ys of Inl e \<Rightarrow> Inl e | Inr i \<Rightarrow> Inr (Suc i)))"

text \<open>\<^verbatim>\<open>xs[0]\<close>: IndexError on the empty list.\<close>

definition getitem0 :: "'a list \<Rightarrow> error + 'a" where
  "getitem0 xs = (case xs of [] \<Rightarrow> Inl IndexError | x # _ \<Rightarrow> Inr x)"

definition is_digit :: "char \<Rightarrow> bool" where
  "is_digit c = (c \<in> set ''0123456789'')"

section \<open>The filename heuristic parser\<close>

subsection \<open>The regular expression\<close>

text \<open>
  \<^verbatim>\<open>re.search(r'^(.+?)\.(?:(?:\d{2}\.){2}\d{2}|\d{4})\.(.*)$', filename)\<close>.
  Each piece of the pattern is a function from the remaining input to the input left
  after the piece, \<open>None\<close> when the piece does not match there.
\<close>

definition newline :: char where
  "newline = CHR 0x0A"

text \<open>\<^verbatim>\<open>\d{2}\<close>\<close>

fun dd :: "string \<Rightarrow> string option" where
  "dd (a # b # r) = (if is_digit a \<and> is_digit b then Some r else None)"
| "dd _ = None"

text \<open>\<^verbatim>\<open>\.\<close>\<close>

fun dot :: "string \<Rightarrow> string option" where
  "dot (c # r) = (if c = CHR ''.'' then Some r else None)"
| "dot [] = None"

text \<open>\<^verbatim>\<open>(?:\d{2}\.){2}\d{2}\<close>, the first alternative of the date group.\<close>

definition date6 :: "string \<Rightarrow> string option" where
  "date6 s = Option.bind (Option.bind (Option.bind (Option.bind (dd s) dot) dd) dot) dd"

text \<open>\<^verbatim>\<open>\d{4}\<close>, the second alternative.\<close>

definition date4 :: "string \<Rightarrow> string option" where
  "date4 s = Option.bind (dd s) dd"

text \<open>
  \<^verbatim>\<open>(.*)$\<close>: the dot does not match a newline, the star is greedy, and \<^verbatim>\<open>$\<close> holds at
  the end of the string or just before a newline that ends it. So the group is the
  whole rest when that has no newline, the rest without its last character when its
  only newline is that last character, and there is no match otherwise.
\<close>

definition end_group :: "string \<Rightarrow> string option" where
  "end_group t =
     (if newline \<notin> set t then Some t
      else if t \<noteq> [] \<and> last t = newline \<and> newline \<notin> set (butlast t) then Some (butlast t)
      else None)"

text \<open>
  \<^verbatim>\<open>\.(?:...|...)\.(.*)$\<close> at the head of \<open>s\<close>: the alternatives are tried in order, the
  second one only when the rest of the pattern fails after the first. The result is
  group 2.
\<close>

definition match_tail :: "string \<Rightarrow> string option" where
  "match_tail s =
     (case Option.bind (Option.bind (Option.bind (dot s) date6) dot) end_group of
        Some g \<Rightarrow> Some g
      | None \<Rightarrow> Option.bind (Option.bind (Option.bind (dot s) date4) dot) end_group)"

text \<open>
  \<^verbatim>\<open>^(.+?)\<close>: the lazy group grows one character at a time from the start of the
  string, never over a newline, and stops at the first length after which the rest of
  the pattern matches. \<open>pre\<close> is the group so far, the second argument the input left.
  The result is (group 1, group 2).
\<close>

fun search_from :: "string \<Rightarrow> string \<Rightarrow> (string \<times> string) option" where
  "search_from pre [] = None"
| "search_from pre (c # s) =
     (if c = newline then None
      else (case match_tail s of
              Some g \<Rightarrow> Some (pre @ [c], g)
            | None \<Rightarrow> search_from (pre @ [c]) s))"

definition re_search :: "string \<Rightarrow> (string \<times> string) option" where
  "re_search filename = search_from [] filename"

subsection \<open>parse_filename_metadata\<close>

text \<open>
  The result is \<open>Inr (collection, cast)\<close>. The three calls that can raise in Python
  (\<^verbatim>\<open>split('.')[0]\<close> and the two \<^verbatim>\<open>index\<close> calls) are kept fallible here.
\<close>

definition parse_filename_metadata :: "string \<Rightarrow> error + (string \<times> string)" where
  "parse_filename_metadata filename =
     (case (if CHR ''.'' \<in> set filename then getitem0 (split_on CHR ''.'' filename)
            else Inr ''Unknown'') of
        Inl e \<Rightarrow> Inl e
      | Inr collection0 \<Rightarrow>
         (case re_search filename of
            None \<Rightarrow> Inr (collection0, ''Unknown'')
          | Some (group1, content_after_date) \<Rightarrow>
             (let collection = replace_char CHR ''.'' CHR '' '' group1;
                  matches0 = split_on CHR ''.'' content_after_date;
                  upper_matches = map upper matches0
              in case (if ''XXX'' \<in> set upper_matches
                       then (case index_of ''XXX'' upper_matches of
                               Inl e \<Rightarrow> Inl e
                             | Inr i \<Rightarrow> Inr (take i matches0))
                       else Inr matches0) of
                   Inl e \<Rightarrow> Inl e
                 | Inr matches \<Rightarrow>
                    if length matches \<le> 3 then Inr (collection, join '' '' matches)
                    else if ''And'' \<notin> set matches
                    then Inr (collection, join '' '' (take 2 matches))
                    else (case index_of ''And'' matches of
                            Inl e \<Rightarrow> Inl e
                          | Inr and_idx \<Rightarrow>
                             if and_idx < 3
                             then (let name_before = join '' '' (take and_idx matches);
                                       after_and_parts = drop (and_idx + 1) matches;
                                       name_after =
                                         (if length after_and_parts \<le> 2
                                          then join '' '' after_and_parts
                                          else join '' '' (take 2 after_and_parts))
                                   in Inr (collection, name_before @ '', '' @ name_after))
                             else Inr (collection, join '' '' (take 2 matches))))))"

text \<open>
  The specification's wording of a recognizable date token, for comparison with the
  regular expression: somewhere in the name stands a dot, then either three two-digit
  groups separated by dots or one four-digit group, then a dot.
\<close>

definition date_token_at :: "string \<Rightarrow> bool" where
  "date_token_at s =
     (Option.bind (Option.bind (dot s) date6) dot \<noteq> None
      \<or> Option.bind (Option.bind (dot s) date4) dot \<noteq> None)"

fun has_date_token :: "string \<Rightarrow> bool" where
  "has_date_token [] = False"
| "has_date_token (c # s) = (date_token_at (c # s) \<or> has_date_token s)"

section \<open>Numbers and their text\<close>

text \<open>
  Python integers are \<^typ>\<open>int\<close>. Python floats are modelled by rationals,
  \<^typ>\<open>rat\<close>: the rounding of binary floating point is not part of the model.
  For \<^verbatim>\<open>format_size\<close> the two agree on every size a file can have: a size below
  \<open>2^53\<close> divided by a power of 1024 is a float without rounding, and from \<open>2^40\<close>
  on, where rounding can set in, every comparison with 1024 has the outcome it has on
  the rationals, division being rounded monotonically. For a duration and a frame rate
  the digits printed can differ from Python's where a decimal or a quotient is not a
  float; nothing proved below depends on those digits.
\<close>

definition digit_char :: "nat \<Rightarrow> char" where
  "digit_char n = ''0123456789'' ! (n mod 10)"

text \<open>\<^verbatim>\<open>str(n)\<close> for \<open>n \<ge> 0\<close>.\<close>

fun str_nat :: "nat \<Rightarrow> string" where
  "str_nat n = (if n < 10 then [digit_char n] else str_nat (n div 10) @ [digit_char (n mod 10)])"

declare str_nat.simps [simp del]

text \<open>\<^verbatim>\<open>str(i)\<close>.\<close>

definition str_int :: "int \<Rightarrow> string" where
  "str_int i = (if i < 0 then CHR ''-'' # str_nat (nat (- i)) else str_nat (nat i))"

text \<open>\<^verbatim>\<open>s.zfill(w)\<close> on a digit string.\<close>

definition zfill :: "nat \<Rightarrow> string \<Rightarrow> string" where
  "zfill w s = replicate (w - length s) CHR ''0'' @ s"

text \<open>\<^verbatim>\<open>f"{i:02}"\<close>: the sign counts towards the width.\<close>

definition format_02 :: "int \<Rightarrow> string" where
  "format_02 i = (if i < 0 then CHR ''-'' # zfill 1 (str_nat (nat (- i))) else zfill 2 (str_nat (nat i)))"

definition round_half_even :: "rat \<Rightarrow> int" where
  "round_half_even x =
     (let f = \<lfloor>x\<rfloor>; r = x - of_int f
      in if r < 1 / 2 then f else if 1 / 2 < r then f + 1 else if even f then f else f + 1)"

text \<open>\<^verbatim>\<open>f"{x:.{d}f}"\<close>: \<open>d\<close> decimals, ties to even.\<close>

definition format_fixed :: "nat \<Rightarrow> rat \<Rightarrow> string" where
  "format_fixed d x =
     (let n = nat (round_half_even (\<bar>x\<bar> * 10 ^ d))
      in (if x < 0 then ''-'' else []) @ str_nat (n div 10 ^ d) @ ''.'' @ zfill d (str_nat (n mod 10 ^ d)))"

text \<open>\<^verbatim>\<open>int(x)\<close> of a float: truncation towards zero.\<close>

definition trunc :: "rat \<Rightarrow> int" where
  "trunc x = (if 0 \<le> x then \<lfloor>x\<rfloor> else \<lceil>x\<rceil>)"

section \<open>Pretty-printing\<close>

text \<open>
  \<^verbatim>\<open>format_size\<close>: the loop over the four units, then the implicit \<^verbatim>\<open>return None\<close>
  when the loop ends without returning.
\<close>

fun format_size_loop :: "string list \<Rightarrow> rat \<Rightarrow> string option" where
  "format_size_loop [] size_bytes = None"
| "format_size_loop (unit # units) size_bytes =
     (if size_bytes < 1024 then Some (format_fixed 1 size_bytes @ '' '' @ unit)
      else format_size_loop units (size_bytes / 1024))"

definition format_size :: "int \<Rightarrow> string option" where
  "format_size size_bytes = format_size_loop [''B'', ''KB'', ''MB'', ''GB''] (of_int size_bytes)"

definition format_duration :: "rat \<Rightarrow> string" where
  "format_duration seconds =
     (if seconds = 0 then ''00:00:00''
      else (let m0 = trunc seconds div 60; s = trunc seconds mod 60;
                h = m0 div 60; m = m0 mod 60
            in format_02 h @ '':'' @ format_02 m @ '':'' @ format_02 s))"

definition get_res_label :: "int \<Rightarrow> int \<Rightarrow> string" where
  "get_res_label width height =
     (let short_side = min width height
      in if short_side \<ge> 2160 then ''2160p''
         else if short_side \<ge> 1080 then ''1080p''
         else if short_side \<ge> 720 then ''720p''
         else if short_side \<ge> 540 then ''540p''
         else if short_side \<ge> 480 then ''480p''
         else str_int short_side @ ''p'')"

section \<open>The metadata probe\<close>

subsection \<open>JSON documents and the built-in conversions\<close>

text \<open>
  What \<^verbatim>\<open>json.loads\<close> returns. An object holds the items of the loaded dict, its keys
  distinct.
\<close>

datatype json =
    JNull | JBool bool | JInt int | JReal rat | JStr string
  | JArr "json list" | JObj "(string \<times> json) list"

definition bind_err :: "error + 'a \<Rightarrow> ('a \<Rightarrow> error + 'b) \<Rightarrow> error + 'b" where
  "bind_err m f = (case m of Inl e \<Rightarrow> Inl e | Inr x \<Rightarrow> f x)"

text \<open>\<^verbatim>\<open>d[k]\<close> with a string key: KeyError on a dict without the key, TypeError on
  anything that is not a dict.\<close>

fun getitem :: "json \<Rightarrow> string \<Rightarrow> error + json" where
  "getitem (JObj kvs) k = (case map_of kvs k of None \<Rightarrow> Inl KeyError | Some v \<Rightarrow> Inr v)"
| "getitem _ k = Inl TypeError"

text \<open>\<^verbatim>\<open>d.get(k, default)\<close>: AttributeError on anything that is not a dict.\<close>

fun dict_get :: "json \<Rightarrow> string \<Rightarrow> json \<Rightarrow> error + json" where
  "dict_get (JObj kvs) k dflt = (case map_of kvs k of None \<Rightarrow> Inr dflt | Some v \<Rightarrow> Inr v)"
| "dict_get _ k dflt = Inl AttributeError"

text \<open>Iterating a value: a list gives its elements, a dict its keys, a string its
  characters; nothing else is iterable.\<close>

fun iter_json :: "json \<Rightarrow> error + json list" where
  "iter_json (JArr xs) = Inr xs"
| "iter_json (JObj kvs) = Inr (map (\<lambda>kv. JStr (fst kv)) kvs)"
| "iter_json (JStr s) = Inr (map (\<lambda>c. JStr [c]) s)"
| "iter_json _ = Inl TypeError"

text \<open>Truth value of a value in a condition.\<close>

fun truthy :: "json \<Rightarrow> bool" where
  "truthy JNull = False"
| "truthy (JBool b) = b"
| "truthy (JInt i) = (i \<noteq> 0)"
| "truthy (JReal r) = (r \<noteq> 0)"
| "truthy (JStr s) = (s \<noteq> [])"
| "truthy (JArr xs) = (xs \<noteq> [])"
| "truthy (JObj kvs) = (kvs \<noteq> [])"

definition digit_val :: "char \<Rightarrow> nat" where
  "digit_val c = length (takeWhile (\<lambda>d. d \<noteq> c) ''0123456789'')"

definition nat_of_digits :: "string \<Rightarrow> nat" where
  "nat_of_digits s = foldl (\<lambda>n c. 10 * n + digit_val c) 0 s"

definition all_digits :: "string \<Rightarrow> bool" where
  "all_digits s = (s \<noteq> [] \<and> list_all is_digit s)"

text \<open>An optional sign in front of a number's text.\<close>

definition split_sign :: "string \<Rightarrow> bool \<times> string" where
  "split_sign s =
     (case s of
        [] \<Rightarrow> (False, s)
      | c # r \<Rightarrow> if c = CHR ''-'' then (True, r) else if c = CHR ''+'' then (False, r) else (False, s))"

text \<open>
  \<^verbatim>\<open>int(s)\<close> and \<^verbatim>\<open>float(s)\<close> of a string, on the spellings the probe tool prints: an
  optional sign and decimal digits, for a float with an optional fraction after a dot.
  The further spellings Python accepts (blanks around the number, underscores, an
  exponent, \<^verbatim>\<open>inf\<close> and \<^verbatim>\<open>nan\<close>) are read as ValueError here.
\<close>

definition int_of_string :: "string \<Rightarrow> error + int" where
  "int_of_string s =
     (let (neg, body) = split_sign s
      in if all_digits body
         then Inr ((if neg then - 1 else 1) * int (nat_of_digits body))
         else Inl ValueError)"

definition float_of_string :: "string \<Rightarrow> error + rat" where
  "float_of_string s =
     (let (neg, body) = split_sign s;
          ip = takeWhile (\<lambda>c. c \<noteq> CHR ''.'') body;
          fp = drop (Suc (length ip)) body
      in if list_all is_digit ip \<and> list_all is_digit fp \<and> (ip \<noteq> [] \<or> fp \<noteq> [])
         then Inr ((if neg then - 1 else 1) * of_nat (nat_of_digits (ip @ fp)) / 10 ^ length fp)
         else Inl ValueError)"

text \<open>\<^verbatim>\<open>int(x)\<close>\<close>

fun py_int :: "json \<Rightarrow> error + int" where
  "py_int (JInt i) = Inr i"
| "py_int (JBool b) = Inr (if b then 1 else 0)"
| "py_int (JReal r) = Inr (trunc r)"
| "py_int (JStr s) = int_of_string s"
| "py_int _ = Inl TypeError"

text \<open>\<^verbatim>\<open>float(x)\<close>\<close>

fun py_float :: "json \<Rightarrow> error + rat" where
  "py_float (JInt i) = Inr (of_int i)"
| "py_float (JBool b) = Inr (if b then 1 else 0)"
| "py_float (JReal r) = Inr r"
| "py_float (JStr s) = float_of_string s"
| "py_float _ = Inl TypeError"

text \<open>A decimal integer literal of Python: digits with no leading zero, or zeros only.\<close>

definition int_literal :: "string \<Rightarrow> bool" where
  "int_literal s = (all_digits s \<and> (hd s \<noteq> CHR ''0'' \<or> list_all (\<lambda>c. c = CHR ''0'') s))"

text \<open>
  \<^verbatim>\<open>eval(x)\<close>. On a string that is one run of digits, or two runs of digits around a
  slash, the outcome is computed here: SyntaxError when a run is not an integer
  literal, ZeroDivisionError for a zero divisor, else the number. Any other string is
  run as Python code, so its outcome is the caller's parameter \<open>other\<close>. A value that
  is not a string is a TypeError.
\<close>

definition py_eval :: "(string \<Rightarrow> error + rat) \<Rightarrow> json \<Rightarrow> error + rat" where
  "py_eval other x =
     (case x of
        JStr s \<Rightarrow>
          (case split_on CHR ''/'' s of
             [n] \<Rightarrow>
               if all_digits n
               then (if int_literal n then Inr (of_nat (nat_of_digits n)) else Inl SyntaxError)
               else other s
           | [n, d] \<Rightarrow>
               if all_digits n \<and> all_digits d
               then (if int_literal n \<and> int_literal d
                     then (if nat_of_digits d = 0 then Inl ZeroDivisionError
                           else Inr (of_nat (nat_of_digits n) / of_nat (nat_of_digits d)))
                     else Inl SyntaxError)
               else other s
           | _ \<Rightarrow> other s)
      | _ \<Rightarrow> Inl TypeError)"

subsection \<open>Paths, the environment and the log\<close>

text \<open>
  A \<^verbatim>\<open>Path\<close> is its normalised text with \<^verbatim>\<open>/\<close> between components. \<^verbatim>\<open>name\<close> is the last
  component; \<^verbatim>\<open>stem\<close> is the name without its last suffix, by pathlib's rule (up to
  Python 3.13): the last dot starts a suffix unless it is the first or the last
  character of the name.
\<close>

definition path_name :: "string \<Rightarrow> string" where
  "path_name p = rev (takeWhile (\<lambda>c. c \<noteq> CHR ''/'') (rev p))"

text \<open>\<^verbatim>\<open>s.rfind(c)\<close>, with \<open>None\<close> for -1.\<close>

definition rfind :: "char \<Rightarrow> string \<Rightarrow> nat option" where
  "rfind c s =
     (if c \<in> set s then Some (length s - 1 - length (takeWhile (\<lambda>d. d \<noteq> c) (rev s))) else None)"

definition stem :: "string \<Rightarrow> string" where
  "stem p =
     (let name = path_name p
      in case rfind CHR ''.'' name of
           None \<Rightarrow> name
         | Some i \<Rightarrow> if 0 < i \<and> i < length name - 1 then take i name else name)"

text \<open>\<^verbatim>\<open>sub in s\<close>\<close>

fun contains :: "string \<Rightarrow> string \<Rightarrow> bool" where
  "contains sub [] = (sub = [])"
| "contains sub (c # s) = (take (length sub) (c # s) = sub \<or> contains sub s)"

text \<open>
  What \<^verbatim>\<open>path.stat()\<close> gives the unit of work: the size, and the creation time (the
  modification time where the platform has no creation time) already rendered in local
  time as \<^verbatim>\<open>%Y/%m/%d %H:%M\<close>.
\<close>

record file_stat =
  st_size :: int
  create_time_text :: string

text \<open>
  The world outside the process. \<open>os_stat\<close> is \<^verbatim>\<open>Path.stat\<close>; \<open>run_ffprobe\<close> is the
  subprocess call followed by \<^verbatim>\<open>json.loads\<close> of its output; \<open>eval_other\<close> is \<^verbatim>\<open>eval\<close> on
  the strings \<open>py_eval\<close> does not compute; \<open>str_other\<close> is \<^verbatim>\<open>str\<close> of a float, a list or
  a dict; \<open>as_completed\<close> is the order in which the pool finishes the submitted files.
\<close>

record env =
  os_stat :: "string \<Rightarrow> error + file_stat"
  run_ffprobe :: "string \<Rightarrow> error + json"
  eval_other :: "string \<Rightarrow> error + rat"
  str_other :: "json \<Rightarrow> string"
  as_completed :: "string list \<Rightarrow> string list"

datatype mode = Append | Overwrite

text \<open>The log lines of the program, each with the values it prints.\<close>

datatype log_entry =
    FFprobe_failed string error
  | Could_not_extract string
  | Error_processing string error
  | Error_reading_CSV error
  | Loaded_records nat
  | Saved_records nat mode
  | Failed_to_write error
  | Nothing_to_do
  | Skipping nat
  | Processing nat
  | Finished nat nat

subsection \<open>get_metadata_ffprobe\<close>

record probe_result =
  m_duration :: rat
  m_bitrate :: int
  m_width :: int
  m_height :: int
  m_fps :: rat
  m_audio_bitrate :: int
  m_audio_channels :: int
  m_audio_sample_rate :: int
  m_comment :: json

text \<open>\<^verbatim>\<open>next((s for s in streams if s['codec_type'] == ty), None)\<close>: elements after the
  first hit are not looked at.\<close>

fun first_stream :: "string \<Rightarrow> json list \<Rightarrow> error + json option" where
  "first_stream ty [] = Inr None"
| "first_stream ty (s # ss) =
     (case getitem s ''codec_type'' of
        Inl e \<Rightarrow> Inl e
      | Inr t \<Rightarrow> if t = JStr ty then Inr (Some s) else first_stream ty ss)"

text \<open>\<^verbatim>\<open>next(...)\<close> over \<^verbatim>\<open>data['streams']\<close>.\<close>

definition find_stream :: "json \<Rightarrow> string \<Rightarrow> error + json option" where
  "find_stream data ty =
     bind_err (getitem data ''streams'') (\<lambda>streams.
     bind_err (iter_json streams) (first_stream ty))"

text \<open>The statements of the \<^verbatim>\<open>try\<close> block after \<^verbatim>\<open>json.loads\<close>, in the source's order.\<close>

definition probe_fields :: "env \<Rightarrow> json \<Rightarrow> error + probe_result" where
  "probe_fields env data =
     bind_err (find_stream data ''video'') (\<lambda>video_stream.
     bind_err (find_stream data ''audio'') (\<lambda>audio_stream.
     bind_err (getitem data ''format'') (\<lambda>format_info.
     bind_err (bind_err (dict_get format_info ''duration'' (JInt 0)) py_float) (\<lambda>duration.
     bind_err (bind_err (dict_get format_info ''bit_rate'' (JInt 0)) py_int) (\<lambda>bit_rate.
     bind_err (case video_stream of
                 Some v \<Rightarrow> bind_err (dict_get v ''width'' (JInt 0)) py_int
               | None \<Rightarrow> Inr 0) (\<lambda>width.
     bind_err (case video_stream of
                 Some v \<Rightarrow> bind_err (dict_get v ''height'' (JInt 0)) py_int
               | None \<Rightarrow> Inr 0) (\<lambda>height.
     bind_err (case video_stream of
                 Some v \<Rightarrow> bind_err (dict_get v ''r_frame_rate'' (JStr ''0/1''))
                             (py_eval (eval_other env))
               | None \<Rightarrow> Inr 0) (\<lambda>fps.
     bind_err (case audio_stream of
                 Some a \<Rightarrow>
                   bind_err (dict_get a ''bit_rate'' JNull) (\<lambda>b.
                     if truthy b
                     then bind_err (bind_err (dict_get a ''bit_rate'' (JInt 0)) py_int)
                            (\<lambda>i. Inr (i div 1000))
                     else Inr 0)
               | None \<Rightarrow> Inr 0) (\<lambda>audio_bitrate.
     bind_err (case audio_stream of
                 Some a \<Rightarrow> bind_err (dict_get a ''channels'' (JInt 0)) py_int
               | None \<Rightarrow> Inr 0) (\<lambda>audio_channels.
     bind_err (case audio_stream of
                 Some a \<Rightarrow> bind_err (dict_get a ''sample_rate'' (JInt 0)) py_int
               | None \<Rightarrow> Inr 0) (\<lambda>audio_sample_rate.
     bind_err (bind_err (dict_get format_info ''tags'' (JObj []))
                 (\<lambda>tags. dict_get tags ''comment'' (JStr []))) (\<lambda>comment.
     Inr \<lparr> m_duration = duration, m_bitrate = bit_rate div 1000,
           m_width = width, m_height = height, m_fps = fps,
           m_audio_bitrate = audio_bitrate, m_audio_channels = audio_channels,
           m_audio_sample_rate = audio_sample_rate, m_comment = comment \<rparr>))))))))))))"

text \<open>The whole function: any exception is logged with the file's name and turned into
  \<open>None\<close>.\<close>

definition get_metadata_ffprobe :: "env \<Rightarrow> string \<Rightarrow> probe_result option \<times> log_entry list" where
  "get_metadata_ffprobe env file_path =
     (case bind_err (run_ffprobe env file_path) (probe_fields env) of
        Inl e \<Rightarrow> (None, [FFprobe_failed (path_name file_path) e])
      | Inr meta \<Rightarrow> (Some meta, []))"

section \<open>The unit of work\<close>

text \<open>
  The dict \<^verbatim>\<open>info\<close> built by \<^verbatim>\<open>process_single_video\<close>, one field per key, in the order
  of \<^verbatim>\<open>HEADERS\<close>. A value that may be \<^verbatim>\<open>None\<close> is an option.
\<close>

record media_record =
  r_name :: string
  r_size :: "string option"
  r_duration :: string
  r_collection :: string
  r_cast :: string
  r_tags :: string
  r_path :: string
  r_bitrate :: string
  r_create_time :: string
  r_fps :: string
  r_resolution :: string
  r_audio_bitrate :: "string option"
  r_audio_channels :: int
  r_audio_sampling_rate :: "string option"
  r_comment :: json

text \<open>
  \<^verbatim>\<open>process_single_video\<close>. The outer \<^verbatim>\<open>try\<close> turns every exception of the body into a
  log line with the file's name and the result \<open>None\<close>; a probe that returned \<open>None\<close>
  gives a warning with the stem and the result \<open>None\<close>.
\<close>

definition process_single_video ::
  "env \<Rightarrow> string \<Rightarrow> string \<Rightarrow> media_record option \<times> log_entry list" where
  "process_single_video env path_video tag =
     (let name = stem path_video
      in case os_stat env path_video of
           Inl e \<Rightarrow> (None, [Error_processing (path_name path_video) e])
         | Inr st \<Rightarrow>
            (let size_str = format_size (st_size st);
                 create_time_str = create_time_text st
             in case parse_filename_metadata (replace_char CHR '' '' CHR ''.'' name) of
                  Inl e \<Rightarrow> (None, [Error_processing (path_name path_video) e])
                | Inr (collection, cast) \<Rightarrow>
                   (let tag_to = (if contains ''PRT'' (upper name) then ''PRT'' else ''XC'')
                    in case get_metadata_ffprobe env path_video of
                         (None, lg) \<Rightarrow> (None, lg @ [Could_not_extract name])
                       | (Some meta, lg) \<Rightarrow>
                          (let res_label = get_res_label (m_width meta) (m_height meta)
                           in (Some \<lparr> r_name = name,
                                      r_size = size_str,
                                      r_duration = format_duration (m_duration meta),
                                      r_collection = collection,
                                      r_cast = cast,
                                      r_tags = tag @ '', '' @ res_label @ '', '' @ tag_to,
                                      r_path = path_video,
                                      r_bitrate = str_int (m_bitrate meta) @ ''kbps'',
                                      r_create_time = create_time_str,
                                      r_fps = format_fixed 2 (m_fps meta) @ '' fps'',
                                      r_resolution =
                                        str_int (m_width meta) @ ''x'' @ str_int (m_height meta),
                                      r_audio_bitrate =
                                        (if m_audio_bitrate meta \<noteq> 0
                                         then Some (str_int (m_audio_bitrate meta) @ ''kbps'')
                                         else None),
                                      r_audio_channels = m_audio_channels meta,
                                      r_audio_sampling_rate =
                                        (if m_audio_sample_rate meta \<noteq> 0
                                         then Some (format_fixed 1
                                                (of_int (m_audio_sample_rate meta) / 1000) @ '' kHz'')
                                         else None),
                                      r_comment = m_comment meta \<rparr>, lg)))))"

section \<open>The catalog file\<close>

text \<open>
  The catalog file is modelled at the level of the rows the \<^verbatim>\<open>csv\<close> module reads and
  writes: a row is the list of its cells, a blank line the empty list. \<open>Unreadable\<close>
  is a stretch of the file on which the reader raises (bytes that are not UTF-8, a
  field over the module's size limit). A file is absent (\<open>None\<close>) or holds its rows;
  a file of length zero holds none. \<open>readable\<close> and \<open>writable\<close> say whether \<^verbatim>\<open>open\<close>
  succeeds for reading and for writing.
\<close>

datatype csv_row = Row "string list" | Unreadable error

record catalog_file =
  content :: "csv_row list option"
  readable :: bool
  writable :: bool

definition HEADERS :: "string list" where
  "HEADERS = [''name'', ''size'', ''duration'', ''collection'', ''cast'', ''tags'', ''path'',
              ''bitrate'', ''create_time'', ''fps'', ''resolution'', ''audio_bitrate'',
              ''audio_channels'', ''audio_sampling_rate'', ''comment'']"

subsection \<open>get_existing_records\<close>

text \<open>
  The dict \<^verbatim>\<open>csv.DictReader\<close> makes of one row: the cells under the field names, a
  later duplicate of a field name replacing the earlier one, and \<^verbatim>\<open>None\<close> under the
  field names the row is too short for. (The cells a row has beyond the field names go
  under the key \<^verbatim>\<open>None\<close>, which no lookup of the program reads; they are left out.)
\<close>

definition dict_row :: "string list \<Rightarrow> string list \<Rightarrow> (string \<times> string option) list" where
  "dict_row fieldnames cells =
     foldl (\<lambda>d kv. AList.update (fst kv) (snd kv) d) []
       (zip fieldnames (map Some cells) @ map (\<lambda>k. (k, None)) (drop (length cells) fieldnames))"

text \<open>
  The loop \<^verbatim>\<open>for row in reader\<close>, with the dict \<^verbatim>\<open>existing_data\<close> as accumulator. The
  reader skips blank rows; a raise ends the loop with the exception and the dict as it
  is then.
\<close>

fun read_rows :: "string list \<Rightarrow> csv_row list
    \<Rightarrow> (string \<times> (string \<times> string option) list) list
    \<Rightarrow> (string \<times> (string \<times> string option) list) list \<times> error option" where
  "read_rows fieldnames [] existing_data = (existing_data, None)"
| "read_rows fieldnames (Unreadable e # rest) existing_data = (existing_data, Some e)"
| "read_rows fieldnames (Row cells # rest) existing_data =
     (if cells = [] then read_rows fieldnames rest existing_data
      else (let row = dict_row fieldnames cells
            in case map_of row ''name'' of
                 Some (Some name) \<Rightarrow>
                   if row \<noteq> [] \<and> name \<noteq> []
                   then read_rows fieldnames rest (AList.update name row existing_data)
                   else read_rows fieldnames rest existing_data
               | _ \<Rightarrow> read_rows fieldnames rest existing_data))"

text \<open>The reader takes the first row of the file as the field names.\<close>

definition read_all :: "csv_row list
    \<Rightarrow> (string \<times> (string \<times> string option) list) list \<times> error option" where
  "read_all rows =
     (case rows of
        [] \<Rightarrow> ([], None)
      | Unreadable e # rest \<Rightarrow> ([], Some e)
      | Row fieldnames # rest \<Rightarrow> read_rows fieldnames rest [])"

definition get_existing_records :: "catalog_file
    \<Rightarrow> (string \<times> (string \<times> string option) list) list \<times> log_entry list" where
  "get_existing_records csv =
     (case content csv of
        None \<Rightarrow> ([], [])
      | Some rows \<Rightarrow>
          if \<not> readable csv then ([], [Error_reading_CSV OSError])
          else (case read_all rows of
                  (existing_data, None) \<Rightarrow>
                    (existing_data, [Loaded_records (length existing_data)])
                | (existing_data, Some e) \<Rightarrow> (existing_data, [Error_reading_CSV e])))"

subsection \<open>save_to_csv\<close>

text \<open>The text the writer puts in a cell: the empty cell for \<^verbatim>\<open>None\<close>, a string as it
  is, \<^verbatim>\<open>str\<close> of anything else.\<close>

definition cell_of_option :: "string option \<Rightarrow> string" where
  "cell_of_option v = (case v of None \<Rightarrow> [] | Some s \<Rightarrow> s)"

definition cell_of_json :: "env \<Rightarrow> json \<Rightarrow> string" where
  "cell_of_json env v =
     (case v of
        JNull \<Rightarrow> []
      | JStr s \<Rightarrow> s
      | JInt i \<Rightarrow> str_int i
      | JBool b \<Rightarrow> (if b then ''True'' else ''False'')
      | _ \<Rightarrow> str_other env v)"

text \<open>The cells of one record, in the order of the field names.\<close>

definition row_cells :: "env \<Rightarrow> media_record \<Rightarrow> string list" where
  "row_cells env r =
     [r_name r, cell_of_option (r_size r), r_duration r, r_collection r, r_cast r, r_tags r,
      r_path r, r_bitrate r, r_create_time r, r_fps r, r_resolution r,
      cell_of_option (r_audio_bitrate r), str_int (r_audio_channels r),
      cell_of_option (r_audio_sampling_rate r), cell_of_json env (r_comment r)]"

text \<open>
  \<^verbatim>\<open>save_to_csv\<close>. Opening with mode \<^verbatim>\<open>'w'\<close> empties the file, with mode \<^verbatim>\<open>'a'\<close> keeps
  what is there (and creates the file when it is absent). A failing \<^verbatim>\<open>open\<close> is logged
  and leaves the file as it was.
\<close>

definition save_to_csv ::
  "env \<Rightarrow> media_record list \<Rightarrow> catalog_file \<Rightarrow> mode \<Rightarrow> catalog_file \<times> log_entry list" where
  "save_to_csv env data_list csv mode =
     (if data_list = [] then (csv, [])
      else (let write_header =
                  (mode = Overwrite \<or> content csv = None \<or> content csv = Some [])
            in if \<not> writable csv then (csv, [Failed_to_write OSError])
               else (csv \<lparr> content :=
                             Some ((case mode of
                                      Overwrite \<Rightarrow> []
                                    | Append \<Rightarrow> (case content csv of None \<Rightarrow> [] | Some old \<Rightarrow> old))
                                   @ (if write_header then [Row HEADERS] else [])
                                   @ map (\<lambda>r. Row (row_cells env r)) data_list) \<rparr>,
                     [Saved_records (length data_list) mode])))"

section \<open>main\<close>

text \<open>
  The list comprehension of \<^verbatim>\<open>main\<close> that computes the work set in append mode:
  \<^verbatim>\<open>[video for video in all_videos if video.name not in existing_records]\<close>.
\<close>

definition files_to_process ::
  "string list \<Rightarrow> (string \<times> (string \<times> string option) list) list \<Rightarrow> string list" where
  "files_to_process all_videos existing_records =
     filter (\<lambda>video. path_name video \<notin> set (map fst existing_records)) all_videos"

text \<open>
  The pool: one unit per file, the results taken in the order the units finish; a
  unit that returned a record adds it to \<^verbatim>\<open>info_list\<close>. The unit catches every exception
  itself, so \<^verbatim>\<open>future.result()\<close> does not raise.
\<close>

fun collect :: "env \<Rightarrow> string \<Rightarrow> string list \<Rightarrow> media_record list \<times> log_entry list" where
  "collect env tag [] = ([], [])"
| "collect env tag (video # rest) =
     (let (result, lg) = process_single_video env video tag;
          (info_list, lgs) = collect env tag rest
      in ((case result of None \<Rightarrow> [] | Some info \<Rightarrow> [info]) @ info_list, lg @ lgs))"

definition run_pool :: "env \<Rightarrow> string \<Rightarrow> string list \<Rightarrow> media_record list \<times> log_entry list" where
  "run_pool env tag files = collect env tag (as_completed env files)"

text \<open>
  \<^verbatim>\<open>main\<close> after the command line is read and \<^verbatim>\<open>get_video_files\<close> has returned
  \<open>all_videos\<close>: the result is the catalog file after the run and the log.
\<close>

definition main ::
  "env \<Rightarrow> mode \<Rightarrow> string \<Rightarrow> string list \<Rightarrow> catalog_file \<Rightarrow> catalog_file \<times> log_entry list" where
  "main env mode tag all_videos csv =
     (let (existing_records, lg0) =
            (if mode = Append then get_existing_records csv else ([], []));
          work = (if mode = Append then files_to_process all_videos existing_records
                  else all_videos)
      in if mode = Append \<and> length work = 0 then (csv, lg0 @ [Nothing_to_do])
         else (let lg1 = (if mode = Append then [Skipping (length all_videos - length work)]
                          else []);
                   (info_list, lg2) = run_pool env tag work;
                   (csv', lg3) = save_to_csv env info_list csv
                                   (if mode = Append \<and> content csv \<noteq> None then Append
                                    else Overwrite)
               in (csv', lg0 @ lg1 @ [Processing (length work)] @ lg2
                         @ [Finished (length info_list) (length work)] @ lg3)))"

section \<open>Looking at a catalog file\<close>

text \<open>The rows of the file, none when it is absent.\<close>

definition rows_of :: "catalog_file \<Rightarrow> csv_row list" where
  "rows_of csv = (case content csv of None \<Rightarrow> [] | Some rows \<Rightarrow> rows)"

text \<open>The cell in the first column, which is the column \<^verbatim>\<open>name\<close> of \<open>HEADERS\<close>.\<close>

fun row_name :: "csv_row \<Rightarrow> string option" where
  "row_name (Row (c # cs)) = Some c"
| "row_name _ = None"

text \<open>The names in the rows under the first row of the file, in file order, repeats
  kept.\<close>

definition persisted_names :: "catalog_file \<Rightarrow> string list" where
  "persisted_names csv = List.map_filter row_name (tl (rows_of csv))"

section \<open>Sample inputs\<close>

text \<open>
  An output of the probe tool with one video and one audio stream, the frame rate of
  the video stream left open.
\<close>

definition sample_probe :: "string \<Rightarrow> json" where
  "sample_probe rate =
     JObj [(''streams'',
            JArr [JObj [(''codec_type'', JStr ''video''), (''width'', JInt 1920),
                        (''height'', JInt 1080), (''r_frame_rate'', JStr rate)],
                  JObj [(''codec_type'', JStr ''audio''), (''bit_rate'', JStr ''128000''),
                        (''channels'', JInt 2), (''sample_rate'', JStr ''48000'')]]),
           (''format'', JObj [(''duration'', JStr ''12.500000''),
                              (''bit_rate'', JStr ''2500000'')])]"

text \<open>
  A world in which \<^verbatim>\<open>/v/gone.mp4\<close> cannot be stat'ed, \<^verbatim>\<open>/v/huge.mkv\<close> is one tebibyte
  long, the probe output of the files in \<open>broken\<close> is not JSON, the video stream of
  \<^verbatim>\<open>/v/still.mp4\<close> has the frame rate \<^verbatim>\<open>0/0\<close>, and the pool finishes its units in the
  reverse of the order of submission.
\<close>

definition sample_env :: "string list \<Rightarrow> env" where
  "sample_env broken =
     \<lparr> os_stat = (\<lambda>p. if p = ''/v/gone.mp4'' then Inl OSError
                      else Inr \<lparr> st_size = (if p = ''/v/huge.mkv'' then 1024 ^ 4 else 1536),
                                 create_time_text = ''2024/01/02 03:04'' \<rparr>),
       run_ffprobe = (\<lambda>p. if p \<in> set broken then Inl JSONDecodeError
                          else if p = ''/v/still.mp4'' then Inr (sample_probe ''0/0'')
                          else Inr (sample_probe ''30000/1001'')),
       eval_other = (\<lambda>s. Inl SyntaxError),
       str_other = (\<lambda>v. []),
       as_completed = rev \<rparr>"

definition absent_catalog :: catalog_file where
  "absent_catalog = \<lparr> content = None, readable = True, writable = True \<rparr>"

text \<open>The record of \<^verbatim>\<open>/v/foo.mp4\<close> in that world, for the tag \<^verbatim>\<open>t\<close>.\<close>

definition foo_record :: media_record where
  "foo_record =
     \<lparr> r_name = ''foo'', r_size = Some ''1.5 KB'', r_duration = ''00:00:12'',
       r_collection = ''Unknown'', r_cast = ''Unknown'', r_tags = ''t, 1080p, XC'',
       r_path = ''/v/foo.mp4'', r_bitrate = ''2500kbps'',
       r_create_time = ''2024/01/02 03:04'', r_fps = ''29.97 fps'',
       r_resolution = ''1920x1080'', r_audio_bitrate = Some ''128kbps'',
       r_audio_channels = 2, r_audio_sampling_rate = Some ''48.0 kHz'',
       r_comment = JStr [] \<rparr>"

section \<open>Properties of the filename parser\<close>

subsection \<open>Auxiliary facts\<close>

lemma index_of_mem:
  "x \<in> set xs \<Longrightarrow> index_of x xs = Inr (length (takeWhile (\<lambda>y. y \<noteq> x) xs))"
  by (induction xs) auto

lemma split_on_head:
  "\<exists>ws. split_on sep s = takeWhile (\<lambda>c. c \<noteq> sep) s # ws"
  by (induction s) auto

lemma getitem0_split_on:
  "getitem0 (split_on sep s) = Inr (takeWhile (\<lambda>c. c \<noteq> sep) s)"
  using split_on_head [of sep s] by (auto simp: getitem0_def)

lemma index_of_upper:
  assumes "''XXX'' \<in> set (map upper ms)"
  shows "index_of ''XXX'' (map upper ms) = Inr (length (takeWhile (\<lambda>m. upper m \<noteq> ''XXX'') ms))"
proof -
  have "takeWhile (\<lambda>y. y \<noteq> ''XXX'') (map upper ms) = map upper (takeWhile (\<lambda>m. upper m \<noteq> ''XXX'') ms)"
    by (simp add: takeWhile_map comp_def)
  then show ?thesis using index_of_mem [OF assms] by simp
qed

lemma take_length_takeWhile: "take (length (takeWhile P xs)) xs = takeWhile P xs"
  by (induction xs) auto

lemma takeWhile_all: "x \<notin> set (map f xs) \<Longrightarrow> takeWhile (\<lambda>m. f m \<noteq> x) xs = xs"
  by (induction xs) auto

lemma truncate_xxx:
  "(if ''XXX'' \<in> set (map upper ms)
    then (case index_of ''XXX'' (map upper ms) of Inl e \<Rightarrow> Inl e | Inr i \<Rightarrow> Inr (take i ms))
    else Inr ms) = (Inr (takeWhile (\<lambda>m. upper m \<noteq> ''XXX'') ms) :: error + string list)"
proof (cases "''XXX'' \<in> set (map upper ms)")
  case True
  then show ?thesis by (simp only: index_of_upper if_True sum.case take_length_takeWhile)
next
  case False
  then have e: "takeWhile (\<lambda>m. upper m \<noteq> ''XXX'') ms = ms" by (rule takeWhile_all)
  show ?thesis by (simp only: False if_False e)
qed

lemma match_tail_date: "match_tail s = Some g \<Longrightarrow> date_token_at s"
  by (auto simp: match_tail_def date_token_at_def split: option.splits Option.bind_splits)

lemma search_from_date: "search_from pre s = Some r \<Longrightarrow> has_date_token s"
proof (induction s arbitrary: pre)
  case Nil then show ?case by simp
next
  case (Cons c s)
  show ?case
  proof (cases "match_tail s")
    case None
    with Cons show ?thesis by (auto split: if_splits)
  next
    case (Some g)
    then have "date_token_at s" by (rule match_tail_date)
    then have "has_date_token s" by (cases s) (auto simp: date_token_at_def)
    then show ?thesis by simp
  qed
qed

lemma parse_unfold:
  "parse_filename_metadata filename =
    (case re_search filename of
       None \<Rightarrow> Inr (if CHR ''.'' \<in> set filename then takeWhile (\<lambda>c. c \<noteq> CHR ''.'') filename else ''Unknown'', ''Unknown'')
     | Some (g1, g2) \<Rightarrow>
        (let ms = takeWhile (\<lambda>m. upper m \<noteq> ''XXX'') (split_on CHR ''.'' g2);
             idx = length (takeWhile (\<lambda>m. m \<noteq> ''And'') ms)
         in Inr (replace_char CHR ''.'' CHR '' '' g1,
              if length ms \<le> 3 then join '' '' ms
              else if ''And'' \<notin> set ms then join '' '' (take 2 ms)
              else if idx < 3 then join '' '' (take idx ms) @ '', '' @ join '' '' (take 2 (drop (Suc idx) ms))
              else join '' '' (take 2 ms))))"
  unfolding parse_filename_metadata_def Let_def truncate_xxx
  by (auto simp: getitem0_split_on index_of_mem split: option.splits)

subsection \<open>Cast assembly around the token And\<close>

text \<open>
  Claim C7. Let the regular expression match the filename with groups \<open>group1\<close> and
  \<open>group2\<close>, let \<open>matches\<close> be the dot-separated tokens of \<open>group2\<close> cut before the
  first token whose upper-case form is XXX, let \<open>matches\<close> have more than three tokens
  and contain the token And, first at index \<open>idx\<close>. Then the parser returns the cast:
  for \<open>idx < 3\<close> the tokens before \<open>idx\<close> joined by spaces, a comma and a space, and
  the first two (or fewer) tokens after \<open>idx\<close> joined by spaces; for \<open>idx \<ge> 3\<close> the
  first two tokens joined by a space. The collection is group 1 with its dots turned
  into spaces. On \<^verbatim>\<open>Show.2024.Carol.And.Dave.Eve\<close> the cast is \<^verbatim>\<open>Carol, Dave Eve\<close>.
\<close>

theorem parse_cast_And:
  "(re_search filename = Some (group1, group2) \<and>
    matches = takeWhile (\<lambda>m. upper m \<noteq> ''XXX'') (split_on CHR ''.'' group2) \<and>
    3 < length matches \<and> ''And'' \<in> set matches \<and>
    idx = length (takeWhile (\<lambda>m. m \<noteq> ''And'') matches)
    \<longrightarrow>
    parse_filename_metadata filename =
      Inr (replace_char CHR ''.'' CHR '' '' group1,
           if idx < 3
           then join '' '' (take idx matches) @ '', '' @
                join '' '' (take 2 (drop (Suc idx) matches))
           else join '' '' (take 2 matches)))
   \<and> parse_filename_metadata ''Show.2024.Carol.And.Dave.Eve'' = Inr (''Show'', ''Carol, Dave Eve'')"
proof (intro conjI impI)
  assume h: "re_search filename = Some (group1, group2) \<and>
    matches = takeWhile (\<lambda>m. upper m \<noteq> ''XXX'') (split_on CHR ''.'' group2) \<and>
    3 < length matches \<and> ''And'' \<in> set matches \<and>
    idx = length (takeWhile (\<lambda>m. m \<noteq> ''And'') matches)"
  then show "parse_filename_metadata filename =
      Inr (replace_char CHR ''.'' CHR '' '' group1,
           if idx < 3
           then join '' '' (take idx matches) @ '', '' @
                join '' '' (take 2 (drop (Suc idx) matches))
           else join '' '' (take 2 matches))"
    by (auto simp: parse_unfold Let_def)
next
  show "parse_filename_metadata ''Show.2024.Carol.And.Dave.Eve'' = Inr (''Show'', ''Carol, Dave Eve'')"
    by code_simp
qed

theorem parse_cast_And_witness:
  "re_search ''Studio.One.24.03.09.Ann.Lee.And.Bea.Kay.Zed.1080p''
     = Some (''Studio.One'', ''Ann.Lee.And.Bea.Kay.Zed.1080p'') \<and>
   takeWhile (\<lambda>m. upper m \<noteq> ''XXX'') (split_on CHR ''.'' ''Ann.Lee.And.Bea.Kay.Zed.1080p'')
     = [''Ann'', ''Lee'', ''And'', ''Bea'', ''Kay'', ''Zed'', ''1080p''] \<and>
   length (takeWhile (\<lambda>m. m \<noteq> ''And'') [''Ann'', ''Lee'', ''And'', ''Bea'', ''Kay'', ''Zed'', ''1080p'']) = 2 \<and>
   parse_filename_metadata ''Studio.One.24.03.09.Ann.Lee.And.Bea.Kay.Zed.1080p''
     = Inr (''Studio One'', ''Ann Lee, Bea Kay'')"
proof -
  have s: "re_search ''Studio.One.24.03.09.Ann.Lee.And.Bea.Kay.Zed.1080p''
     = Some (''Studio.One'', ''Ann.Lee.And.Bea.Kay.Zed.1080p'')"
    by code_simp
  have m: "takeWhile (\<lambda>m. upper m \<noteq> ''XXX'') (split_on CHR ''.'' ''Ann.Lee.And.Bea.Kay.Zed.1080p'')
     = [''Ann'', ''Lee'', ''And'', ''Bea'', ''Kay'', ''Zed'', ''1080p'']"
    by code_simp
  have i: "length (takeWhile (\<lambda>m. m \<noteq> ''And'') [''Ann'', ''Lee'', ''And'', ''Bea'', ''Kay'', ''Zed'', ''1080p'']) = 2"
    by simp
  have "parse_filename_metadata ''Studio.One.24.03.09.Ann.Lee.And.Bea.Kay.Zed.1080p'' = 
     Inr (replace_char CHR ''.'' CHR '' '' ''Studio.One'',
           if (2::nat) < 3
           then join '' '' (take 2 [''Ann'', ''Lee'', ''And'', ''Bea'', ''Kay'', ''Zed'', ''1080p'']) @ '', '' @
                join '' '' (take 2 (drop (Suc 2) [''Ann'', ''Lee'', ''And'', ''Bea'', ''Kay'', ''Zed'', ''1080p'']))
           else join '' '' (take 2 [''Ann'', ''Lee'', ''And'', ''Bea'', ''Kay'', ''Zed'', ''1080p'']))"
    using parse_cast_And [of "''Studio.One.24.03.09.Ann.Lee.And.Bea.Kay.Zed.1080p''"
        "''Studio.One''" "''Ann.Lee.And.Bea.Kay.Zed.1080p''"
        "[''Ann'', ''Lee'', ''And'', ''Bea'', ''Kay'', ''Zed'', ''1080p'']" 2] s m i
    by simp
  then have "parse_filename_metadata ''Studio.One.24.03.09.Ann.Lee.And.Bea.Kay.Zed.1080p''
     = Inr (''Studio One'', ''Ann Lee, Bea Kay'')"
    by (simp add: replace_char_def)
  with s m i show ?thesis by simp
qed

subsection \<open>Filenames without a date token\<close>

text \<open>
  Claim C8. A filename in which no dot-bounded date token stands (three two-digit
  groups separated by dots, or one four-digit group) is not matched by the regular
  expression; whenever the regular expression does not match, the parser returns the
  part of the filename before its first dot as collection (\<^verbatim>\<open>Unknown\<close> when there is no
  dot) and \<^verbatim>\<open>Unknown\<close> as cast; and on every string the parser returns a pair: none of
  its three fallible calls raises. Being a function of the filename alone, it is
  deterministic and reads nothing else.
\<close>

theorem parse_without_date:
  "(\<not> has_date_token filename \<longrightarrow> re_search filename = None) \<and>
   (re_search filename = None \<longrightarrow>
      parse_filename_metadata filename =
        Inr (if CHR ''.'' \<in> set filename then takeWhile (\<lambda>c. c \<noteq> CHR ''.'') filename
             else ''Unknown'', ''Unknown'')) \<and>
   (\<exists>collection cast. parse_filename_metadata filename = Inr (collection, cast))"
proof (intro conjI impI)
  assume "\<not> has_date_token filename"
  then show "re_search filename = None"
    using search_from_date [of "[]" filename] by (cases "re_search filename") (auto simp: re_search_def)
next
  assume "re_search filename = None"
  then show "parse_filename_metadata filename =
        Inr (if CHR ''.'' \<in> set filename then takeWhile (\<lambda>c. c \<noteq> CHR ''.'') filename
             else ''Unknown'', ''Unknown'')"
    by (simp add: parse_unfold)
next
  show "\<exists>collection cast. parse_filename_metadata filename = Inr (collection, cast)"
    by (cases "re_search filename") (auto simp: parse_unfold Let_def)
qed

theorem parse_without_date_witness:
  "\<not> has_date_token ''Holiday.clip.v2'' \<and> re_search ''Holiday.clip.v2'' = None \<and>
   parse_filename_metadata ''Holiday.clip.v2'' = Inr (''Holiday'', ''Unknown'') \<and>
   \<not> has_date_token ''Holiday'' \<and> re_search ''Holiday'' = None \<and>
   parse_filename_metadata ''Holiday'' = Inr (''Unknown'', ''Unknown'')"
proof -
  have a: "\<not> has_date_token ''Holiday.clip.v2''" by code_simp
  have b: "\<not> has_date_token ''Holiday''" by code_simp
  from a have c: "re_search ''Holiday.clip.v2'' = None"
    using parse_without_date [of "''Holiday.clip.v2''"] by blast
  from b have d: "re_search ''Holiday'' = None"
    using parse_without_date [of "''Holiday''"] by blast
  from c have e: "parse_filename_metadata ''Holiday.clip.v2'' = Inr (''Holiday'', ''Unknown'')"
    using parse_without_date [of "''Holiday.clip.v2''"] by simp
  from d have f: "parse_filename_metadata ''Holiday'' = Inr (''Unknown'', ''Unknown'')"
    using parse_without_date [of "''Holiday''"] by simp
  from a b c d e f show ?thesis by blast
qed

section \<open>Auxiliary facts\<close>

subsection \<open>Evaluating a frame rate\<close>

lemma split_on_none: "sep \<notin> set s \<Longrightarrow> split_on sep s = [s]"
  by (induction s) auto

lemma split_on_once:
  "sep \<notin> set a \<Longrightarrow> sep \<notin> set b \<Longrightarrow> split_on sep (a @ sep # b) = [a, b]"
  by (induction a) (auto simp: split_on_none)

lemma all_digits_no_slash: "all_digits s \<Longrightarrow> CHR ''/'' \<notin> set s"
  by (auto simp: all_digits_def list_all_iff is_digit_def)

lemma py_eval_ratio:
  assumes "all_digits num" and "all_digits den"
  shows "py_eval other (JStr (num @ ''/'' @ den)) =
           (if int_literal num \<and> int_literal den
            then (if nat_of_digits den = 0 then Inl ZeroDivisionError
                  else Inr (of_nat (nat_of_digits num) / of_nat (nat_of_digits den)))
            else Inl SyntaxError)"
proof -
  have "split_on CHR ''/'' (num @ ''/'' @ den) = [num, den]"
    using assms by (simp add: split_on_once all_digits_no_slash)
  with assms show ?thesis by (simp add: py_eval_def)
qed

lemma bind_err_Inr: "bind_err m f = Inr y \<Longrightarrow> \<exists>x. m = Inr x \<and> f x = Inr y"
  by (cases m) (auto simp: bind_err_def)

lemma bind_err_simps [simp]:
  "bind_err (Inl e) f = Inl e" "bind_err (Inr x) f = f x"
  by (simp_all add: bind_err_def)

lemma probe_fields_fps:
  assumes "probe_fields env data = Inr meta"
  shows "\<exists>vs. find_stream data ''video'' = Inr vs \<and>
           (case vs of
              None \<Rightarrow> m_fps meta = 0
            | Some v \<Rightarrow> bind_err (dict_get v ''r_frame_rate'' (JStr ''0/1''))
                          (py_eval (eval_other env)) = Inr (m_fps meta))"
proof -
  from assms obtain vs where v: "find_stream data ''video'' = Inr vs"
    unfolding probe_fields_def by (blast dest: bind_err_Inr)
  from assms v obtain fps where
    f: "(case vs of
           Some v \<Rightarrow> bind_err (dict_get v ''r_frame_rate'' (JStr ''0/1'')) (py_eval (eval_other env))
         | None \<Rightarrow> Inr 0) = Inr fps" and m: "m_fps meta = fps"
    unfolding probe_fields_def
    apply (simp only: v bind_err_simps)
    apply (drule bind_err_Inr, clarify)+
    apply (auto)
    done
  from f m have "case vs of
              None \<Rightarrow> m_fps meta = 0
            | Some v \<Rightarrow> bind_err (dict_get v ''r_frame_rate'' (JStr ''0/1''))
                          (py_eval (eval_other env)) = Inr (m_fps meta)"
    by (cases vs) auto
  with v show ?thesis by blast
qed

lemma probe_no_video:
  "find_stream data ''video'' = Inr None \<Longrightarrow> probe_fields env data = Inr meta \<Longrightarrow> m_fps meta = 0"
  using probe_fields_fps [of env data meta] by auto

lemma probe_video_rate:
  assumes "find_stream data ''video'' = Inr (Some v)"
    and "dict_get v ''r_frame_rate'' (JStr ''0/1'') = Inr (JStr (num @ ''/'' @ den))"
    and "all_digits num" and "all_digits den"
    and "probe_fields env data = Inr meta"
  shows "nat_of_digits den \<noteq> 0"
    and "m_fps meta = of_nat (nat_of_digits num) / of_nat (nat_of_digits den)"
proof -
  have a: "py_eval (eval_other env) (JStr (num @ ''/'' @ den)) = Inr (m_fps meta)"
    using probe_fields_fps [OF assms(5)] assms(1,2) by auto
  have b: "py_eval (eval_other env) (JStr (num @ ''/'' @ den)) =
           (if int_literal num \<and> int_literal den
            then (if nat_of_digits den = 0 then Inl ZeroDivisionError
                  else Inr (of_nat (nat_of_digits num) / of_nat (nat_of_digits den)))
            else Inl SyntaxError)"
    using assms(3,4) by (rule py_eval_ratio)
  from a b show "nat_of_digits den \<noteq> 0" by (auto split: if_splits)
  from a b show "m_fps meta = of_nat (nat_of_digits num) / of_nat (nat_of_digits den)"
    by (auto split: if_splits)
qed

lemma probe_failure_logged:
  "run_ffprobe env file_path = Inr data \<Longrightarrow> probe_fields env data = Inl e
     \<Longrightarrow> get_metadata_ffprobe env file_path = (None, [FFprobe_failed (path_name file_path) e])"
  by (simp add: get_metadata_ffprobe_def)

subsection \<open>Sizes\<close>

lemma format_size_unfold:
  "format_size n =
     (if n < 1024 then Some (format_fixed 1 (of_int n) @ '' B'')
      else if n < 1024 ^ 2 then Some (format_fixed 1 (of_int n / 1024) @ '' KB'')
      else if n < 1024 ^ 3 then Some (format_fixed 1 (of_int n / 1024 / 1024) @ '' MB'')
      else if n < 1024 ^ 4 then Some (format_fixed 1 (of_int n / 1024 / 1024 / 1024) @ '' GB'')
      else None)"
proof -
  have a: "(rat_of_int n < 1024) = (n < 1024)"
    using of_int_less_iff [of n 1024, where ?'a = rat] by simp
  have b: "(rat_of_int n / 1024 < 1024) = (n < 1024 ^ 2)"
    using of_int_less_iff [of n "1024 ^ 2", where ?'a = rat] by (simp add: field_simps)
  have c: "(rat_of_int n / 1024 / 1024 < 1024) = (n < 1024 ^ 3)"
    using of_int_less_iff [of n "1024 ^ 3", where ?'a = rat] by (simp add: field_simps)
  have d: "(rat_of_int n / 1024 / 1024 / 1024 < 1024) = (n < 1024 ^ 4)"
    using of_int_less_iff [of n "1024 ^ 4", where ?'a = rat] by (simp add: field_simps)
  show ?thesis
    unfolding format_size_def format_size_loop.simps a b c d by simp
qed

subsection \<open>The unit of work, the pool and the run\<close>

lemma parse_total: "\<exists>c k. parse_filename_metadata f = Inr (c, k)"
  by (cases "re_search f") (auto simp: parse_unfold Let_def)


lemma process_probe_fail:
  assumes "os_stat env p = Inr st" and "get_metadata_ffprobe env p = (None, lg)"
  shows "process_single_video env p tag = (None, lg @ [Could_not_extract (stem p)])"
proof -
  obtain c k where "parse_filename_metadata (replace_char CHR '' '' CHR ''.'' (stem p)) = Inr (c, k)"
    using parse_total by blast
  with assms show ?thesis by (simp add: process_single_video_def Let_def)
qed

lemma process_ok:
  assumes "os_stat env p = Inr st" and "get_metadata_ffprobe env p = (Some meta, lg)"
  shows "\<exists>r. process_single_video env p tag = (Some r, lg) \<and> r_name r = stem p \<and>
             r_path r = p \<and> r_size r = format_size (st_size st)"
proof -
  obtain c k where "parse_filename_metadata (replace_char CHR '' '' CHR ''.'' (stem p)) = Inr (c, k)"
    using parse_total by blast
  with assms show ?thesis by (simp add: process_single_video_def Let_def)
qed

lemma process_Some_fields:
  assumes "fst (process_single_video env p tag) = Some r"
  shows "r_name r = stem p" and "r_path r = p"
proof -
  obtain c k where pk: "parse_filename_metadata (replace_char CHR '' '' CHR ''.'' (stem p)) = Inr (c, k)"
    using parse_total by blast
  from assms pk show "r_name r = stem p"
    by (auto simp: process_single_video_def Let_def split: sum.splits option.splits prod.splits)
  from assms pk show "r_path r = p"
    by (auto simp: process_single_video_def Let_def split: sum.splits option.splits prod.splits)
qed

lemma process_size:
  "os_stat env p = Inr st \<Longrightarrow> fst (process_single_video env p tag) = Some r
     \<Longrightarrow> r_size r = format_size (st_size st)"
  by (auto simp: process_single_video_def Let_def split: sum.splits option.splits prod.splits)

lemma collect_map_filter:
  "fst (collect env tag fs) = List.map_filter (\<lambda>v. fst (process_single_video env v tag)) fs"
  by (induction fs) (auto simp: List.map_filter_simps split: prod.splits option.splits)

lemma run_pool_paths:
  "map r_path (fst (run_pool env tag fs)) =
     filter (\<lambda>v. fst (process_single_video env v tag) \<noteq> None) (as_completed env fs)"
proof -
  have "map r_path (List.map_filter (\<lambda>v. fst (process_single_video env v tag)) xs) =
        filter (\<lambda>v. fst (process_single_video env v tag) \<noteq> None) xs" for xs
    by (induction xs) (auto simp: List.map_filter_simps process_Some_fields split: option.splits)
  then show ?thesis by (simp add: run_pool_def collect_map_filter)
qed

lemma run_pool_names:
  "map r_name (fst (run_pool env tag fs)) =
     map stem (filter (\<lambda>v. fst (process_single_video env v tag) \<noteq> None) (as_completed env fs))"
proof -
  have "map r_name (List.map_filter (\<lambda>v. fst (process_single_video env v tag)) xs) =
        map stem (filter (\<lambda>v. fst (process_single_video env v tag) \<noteq> None) xs)" for xs
    by (induction xs) (auto simp: List.map_filter_simps process_Some_fields split: option.splits)
  then show ?thesis by (simp add: run_pool_def collect_map_filter)
qed

lemma save_content:
  "content (fst (save_to_csv env data_list csv mode)) =
     (if data_list = [] \<or> \<not> writable csv then content csv
      else Some ((case mode of Overwrite \<Rightarrow> [] | Append \<Rightarrow> rows_of csv)
                 @ (if mode = Overwrite \<or> rows_of csv = [] then [Row HEADERS] else [])
                 @ map (\<lambda>r. Row (row_cells env r)) data_list))"
  by (cases mode; cases "content csv") (auto simp: save_to_csv_def rows_of_def)

lemma save_flags:
  "readable (fst (save_to_csv env data_list csv mode)) = readable csv"
  "writable (fst (save_to_csv env data_list csv mode)) = writable csv"
  by (auto simp: save_to_csv_def Let_def)

lemma main_overwrite_content:
  "content (fst (main env Overwrite tag all_videos csv)) =
     (if fst (run_pool env tag all_videos) = [] \<or> \<not> writable csv then content csv
      else Some (Row HEADERS # map (\<lambda>r. Row (row_cells env r)) (fst (run_pool env tag all_videos))))"
  by (simp add: main_def Let_def case_prod_beta save_content)

lemma main_append_content:
  "content (fst (main env Append tag all_videos csv)) =
     (let work = files_to_process all_videos (fst (get_existing_records csv));
          info_list = fst (run_pool env tag work)
      in if work = [] \<or> info_list = [] \<or> \<not> writable csv then content csv
         else Some (rows_of csv @ (if rows_of csv = [] then [Row HEADERS] else [])
                    @ map (\<lambda>r. Row (row_cells env r)) info_list))"
  by (cases "content csv") (auto simp: main_def Let_def case_prod_beta save_content rows_of_def)

lemma main_flags:
  "readable (fst (main env mode tag all_videos csv)) = readable csv"
  "writable (fst (main env mode tag all_videos csv)) = writable csv"
  by (simp_all add: main_def Let_def case_prod_beta save_flags)

lemma row_name_cells: "row_name (Row (row_cells env r)) = Some (r_name r)"
  by (simp add: row_cells_def)

lemma names_of_rows:
  "List.map_filter row_name (map (\<lambda>r. Row (row_cells env r)) rs) = map r_name rs"
  by (induction rs) (simp_all add: List.map_filter_simps row_name_cells)

subsection \<open>Reading rows\<close>




subsection \<open>The sample inputs\<close>

lemma sample_video:
  "find_stream (sample_probe rate) ''video'' =
     Inr (Some (JObj [(''codec_type'', JStr ''video''), (''width'', JInt 1920),
                      (''height'', JInt 1080), (''r_frame_rate'', JStr rate)]))"
  by (simp add: find_stream_def sample_probe_def)

lemma sample_audio:
  "find_stream (sample_probe rate) ''audio'' =
     Inr (Some (JObj [(''codec_type'', JStr ''audio''), (''bit_rate'', JStr ''128000''),
                      (''channels'', JInt 2), (''sample_rate'', JStr ''48000'')]))"
  by (simp add: find_stream_def sample_probe_def)

lemma sample_format:
  "getitem (sample_probe rate) ''format'' =
     Inr (JObj [(''duration'', JStr ''12.500000''), (''bit_rate'', JStr ''2500000'')])"
  by (simp add: sample_probe_def)

lemma eval_zero: "py_eval other (JStr ''0/0'') = Inl ZeroDivisionError"
  by (simp add: py_eval_def all_digits_def is_digit_def int_literal_def nat_of_digits_def
        digit_val_def)

lemma eval_ntsc: "py_eval other (JStr ''30000/1001'') = Inr (30000 / 1001)"
  by (simp add: py_eval_def all_digits_def is_digit_def int_literal_def nat_of_digits_def
        digit_val_def)

lemma sample_numbers:
  "float_of_string ''12.500000'' = Inr (25 / 2)"
  "int_of_string ''2500000'' = Inr 2500000"
  "int_of_string ''128000'' = Inr 128000"
  "int_of_string ''48000'' = Inr 48000"
  by (simp_all add: float_of_string_def int_of_string_def split_sign_def all_digits_def
        is_digit_def nat_of_digits_def digit_val_def)

lemma probe_fields_still:
  "probe_fields env (sample_probe ''0/0'') = Inl ZeroDivisionError"
  by (simp add: probe_fields_def sample_video sample_audio sample_format sample_numbers eval_zero)

lemma probe_fields_ntsc:
  "probe_fields env (sample_probe ''30000/1001'') =
     Inr \<lparr> m_duration = 25 / 2, m_bitrate = 2500, m_width = 1920, m_height = 1080,
           m_fps = 30000 / 1001, m_audio_bitrate = 128, m_audio_channels = 2,
           m_audio_sample_rate = 48000, m_comment = JStr [] \<rparr>"
  by (simp add: probe_fields_def sample_video sample_audio sample_format sample_numbers eval_ntsc)

lemma sample_ffprobe_ok:
  "p \<notin> set broken \<Longrightarrow> p \<noteq> ''/v/still.mp4'' \<Longrightarrow>
   get_metadata_ffprobe (sample_env broken) p =
     (Some \<lparr> m_duration = 25 / 2, m_bitrate = 2500, m_width = 1920, m_height = 1080,
             m_fps = 30000 / 1001, m_audio_bitrate = 128, m_audio_channels = 2,
             m_audio_sample_rate = 48000, m_comment = JStr [] \<rparr>, [])"
  by (simp add: get_metadata_ffprobe_def probe_fields_ntsc)
     (simp add: sample_env_def probe_fields_ntsc)

lemma sample_ffprobe_broken:
  "p \<in> set broken \<Longrightarrow>
   get_metadata_ffprobe (sample_env broken) p
     = (None, [FFprobe_failed (path_name p) JSONDecodeError])"
  by (simp add: get_metadata_ffprobe_def sample_env_def)

lemma sample_ffprobe_still:
  "''/v/still.mp4'' \<notin> set broken \<Longrightarrow>
   get_metadata_ffprobe (sample_env broken) ''/v/still.mp4''
     = (None, [FFprobe_failed ''still.mp4'' ZeroDivisionError])"
  by (simp add: get_metadata_ffprobe_def sample_env_def probe_fields_still path_name_def)

lemma sample_stat:
  "p \<noteq> ''/v/gone.mp4'' \<Longrightarrow>
   os_stat (sample_env broken) p =
     Inr \<lparr> st_size = (if p = ''/v/huge.mkv'' then 1024 ^ 4 else 1536),
           create_time_text = ''2024/01/02 03:04'' \<rparr>"
  by (simp add: sample_env_def)

lemma sample_success:
  assumes "p \<noteq> ''/v/gone.mp4''" and "p \<notin> set broken" and "p \<noteq> ''/v/still.mp4''"
  shows "fst (process_single_video (sample_env broken) p tag) \<noteq> None"
  using process_ok [OF sample_stat [OF assms(1)] sample_ffprobe_ok [OF assms(2,3)], of tag]
  by auto

lemma sample_failure:
  assumes "p \<noteq> ''/v/gone.mp4''" and "p \<in> set broken"
  shows "fst (process_single_video (sample_env broken) p tag) = None"
  using process_probe_fail [OF sample_stat [OF assms(1)] sample_ffprobe_broken [OF assms(2)], of tag]
  by simp

lemma foo_pieces:
  "stem ''/v/foo.mp4'' = ''foo''"
  "path_name ''/v/foo.mp4'' = ''foo.mp4''"
  "format_size 1536 = Some ''1.5 KB''"
  "parse_filename_metadata (replace_char CHR '' '' CHR ''.'' ''foo'') = Inr (''Unknown'', ''Unknown'')"
  "contains ''PRT'' (upper ''foo'') = False"
  "get_res_label 1920 1080 = ''1080p''"
  "format_duration (25 / 2) = ''00:00:12''"
  "str_int 2500 = ''2500''" "str_int 1920 = ''1920''" "str_int 1080 = ''1080''"
  "str_int 128 = ''128''" "str_int 2 = ''2''"
  "format_fixed 2 (30000 / 1001) = ''29.97''"
  "format_fixed (Suc 0) 48 = ''48.0''"
  by code_simp+

lemma process_foo:
  "''/v/foo.mp4'' \<notin> set broken \<Longrightarrow>
   process_single_video (sample_env broken) ''/v/foo.mp4'' ''t'' = (Some foo_record, [])"
  by (simp add: process_single_video_def Let_def sample_stat sample_ffprobe_ok foo_pieces
        foo_record_def)

lemma foo_cells:
  "row_cells env foo_record =
     [''foo'', ''1.5 KB'', ''00:00:12'', ''Unknown'', ''Unknown'', ''t, 1080p, XC'',
      ''/v/foo.mp4'', ''2500kbps'', ''2024/01/02 03:04'', ''29.97 fps'', ''1920x1080'',
      ''128kbps'', ''2'', ''48.0 kHz'', []]"
  by (simp add: row_cells_def foo_record_def cell_of_option_def cell_of_json_def foo_pieces)

lemma run_pool_foo:
  "''/v/foo.mp4'' \<notin> set broken \<Longrightarrow>
   fst (run_pool (sample_env broken) ''t'' [''/v/foo.mp4'']) = [foo_record]"
  by (simp add: run_pool_def sample_env_def collect_map_filter List.map_filter_simps)
     (simp add: process_foo [unfolded sample_env_def])

lemma first_run:
  "fst (main (sample_env []) mode ''t'' [''/v/foo.mp4''] absent_catalog) =
     \<lparr> content = Some [Row HEADERS, Row (row_cells (sample_env []) foo_record)],
       readable = True, writable = True \<rparr>"
proof -
  have a: "content absent_catalog = None" "writable absent_catalog" "rows_of absent_catalog = []"
    by (simp_all add: absent_catalog_def rows_of_def)
  have w: "files_to_process [''/v/foo.mp4''] (fst (get_existing_records absent_catalog))
             = [''/v/foo.mp4'']"
    by (simp add: files_to_process_def get_existing_records_def absent_catalog_def)
  have c: "content (fst (main (sample_env []) mode ''t'' [''/v/foo.mp4''] absent_catalog))
             = Some [Row HEADERS, Row (row_cells (sample_env []) foo_record)]"
    by (cases mode)
       (simp_all add: main_append_content main_overwrite_content w run_pool_foo Let_def a)
  have "readable (fst (main (sample_env []) mode ''t'' [''/v/foo.mp4''] absent_catalog))"
       "writable (fst (main (sample_env []) mode ''t'' [''/v/foo.mp4''] absent_catalog))"
    by (simp_all add: main_flags absent_catalog_def)
  with c show ?thesis by (simp add: catalog_file.equality)
qed

lemma first_run_records:
  "fst (get_existing_records
          \<lparr> content = Some [Row HEADERS, Row (row_cells env foo_record)],
            readable = True, writable = True \<rparr>)
     = [(''foo'', dict_row HEADERS (row_cells env foo_record))]"
  by (simp add: get_existing_records_def read_all_def foo_cells Let_def)
     (simp add: dict_row_def HEADERS_def)

section \<open>The work set in append mode\<close>

lemma second_run_work:
  "files_to_process [''/v/foo.mp4'']
     (fst (get_existing_records
             (fst (main (sample_env []) Append ''t'' [''/v/foo.mp4''] absent_catalog))))
   = [''/v/foo.mp4'']"
  by (simp add: first_run first_run_records files_to_process_def foo_pieces)

text \<open>
  Claim C1 says that in append mode a discovered file whose stem is a key of the
  catalog is left out of the work set. The code compares the file's \<^verbatim>\<open>name\<close>, which
  has the extension, with the keys, which \<^verbatim>\<open>process_single_video\<close> wrote as stems. After
  a first append run over \<^verbatim>\<open>/v/foo.mp4\<close> the catalog has the one key \<^verbatim>\<open>foo\<close>, which is the
  stem of the file, and the work set computed from that catalog still holds the file.
\<close>

theorem append_work_set_keeps_cataloged_file:
  "stem ''/v/foo.mp4'' = ''foo'' \<and>
   map fst (fst (get_existing_records
                   (fst (main (sample_env []) Append ''t'' [''/v/foo.mp4''] absent_catalog))))
     = [''foo''] \<and>
   files_to_process [''/v/foo.mp4'']
     (fst (get_existing_records
             (fst (main (sample_env []) Append ''t'' [''/v/foo.mp4''] absent_catalog))))
     = [''/v/foo.mp4'']"
  by (simp add: second_run_work foo_pieces) (simp add: first_run first_run_records)

text \<open>
  Claim C2 says that a second append run over the same files and the catalog of the
  first run adds no row. By the comparison above the second run processes
  \<^verbatim>\<open>/v/foo.mp4\<close> again and appends its row a second time: the names in the catalog are
  \<^verbatim>\<open>foo\<close> after the first run and \<^verbatim>\<open>foo\<close>, \<^verbatim>\<open>foo\<close> after the second.
\<close>

theorem second_append_run_adds_a_row:
  "persisted_names (fst (main (sample_env []) Append ''t'' [''/v/foo.mp4''] absent_catalog))
     = [''foo''] \<and>
   persisted_names
     (fst (main (sample_env []) Append ''t'' [''/v/foo.mp4'']
             (fst (main (sample_env []) Append ''t'' [''/v/foo.mp4''] absent_catalog))))
     = [''foo'', ''foo'']"
proof -
  let ?csv1 = "fst (main (sample_env []) Append ''t'' [''/v/foo.mp4''] absent_catalog)"
  have one: "persisted_names ?csv1 = [''foo'']"
    by (simp add: first_run persisted_names_def rows_of_def List.map_filter_simps row_name_cells
          foo_record_def)
  have r: "rows_of ?csv1 = [Row HEADERS, Row (row_cells (sample_env []) foo_record)]"
    by (simp add: first_run rows_of_def)
  have w: "writable ?csv1" by (simp add: first_run)
  have "content (fst (main (sample_env []) Append ''t'' [''/v/foo.mp4''] ?csv1)) =
          Some [Row HEADERS, Row (row_cells (sample_env []) foo_record),
                Row (row_cells (sample_env []) foo_record)]"
    by (simp add: main_append_content second_run_work run_pool_foo r w Let_def)
  then have two: "persisted_names (fst (main (sample_env []) Append ''t'' [''/v/foo.mp4''] ?csv1))
          = [''foo'', ''foo'']"
    by (simp add: persisted_names_def rows_of_def List.map_filter_simps row_name_cells
          foo_record_def)
  from one two show ?thesis by simp
qed

section \<open>The frame rate in the probe\<close>

lemma no_streams_probe:
  "find_stream (JObj [(''streams'', JArr []), (''format'', JObj [])]) ''video'' = Inr None"
  "probe_fields env (JObj [(''streams'', JArr []), (''format'', JObj [])]) =
     Inr \<lparr> m_duration = 0, m_bitrate = 0, m_width = 0, m_height = 0, m_fps = 0,
           m_audio_bitrate = 0, m_audio_channels = 0, m_audio_sample_rate = 0,
           m_comment = JStr [] \<rparr>"
  by (simp_all add: probe_fields_def find_stream_def)

lemma sample_rate_field:
  "dict_get (JObj [(''codec_type'', JStr ''video''), (''width'', JInt 1920),
                   (''height'', JInt 1080), (''r_frame_rate'', JStr rate)])
     ''r_frame_rate'' (JStr ''0/1'') = Inr (JStr rate)"
  by simp

lemma sample_digits:
  "all_digits ''0''" "nat_of_digits ''0'' = 0"
  "all_digits ''30000''" "all_digits ''1001''"
  "nat_of_digits ''30000'' = 30000" "nat_of_digits ''1001'' = 1001"
  by (simp_all add: all_digits_def is_digit_def nat_of_digits_def digit_val_def)

text \<open>
  Claim C3, as the code has it. The frame-rate string is handed to \<^verbatim>\<open>eval\<close>. When the
  probe output has no video stream and the probe returns a result, the frame rate in
  it is 0. When there is a video stream whose frame-rate field is two runs of digits
  around a slash and the second run denotes zero, the evaluation raises, the blanket
  handler of the probe catches the exception, and the probe logs the failure with the
  file's name and returns \<open>None\<close>: a zero denominator makes the probe fail. When the
  probe returns a result for such a field, the denominator is not zero and the frame
  rate is the quotient of the two numbers.
\<close>

theorem probe_frame_rate:
  "(find_stream data ''video'' = Inr None \<and> probe_fields env data = Inr meta
      \<longrightarrow> m_fps meta = 0) \<and>
   (run_ffprobe env file_path = Inr data \<and> find_stream data ''video'' = Inr (Some v) \<and>
    dict_get v ''r_frame_rate'' (JStr ''0/1'') = Inr (JStr (num @ ''/'' @ den)) \<and>
    all_digits num \<and> all_digits den \<and> nat_of_digits den = 0
      \<longrightarrow> (\<exists>e. get_metadata_ffprobe env file_path
                  = (None, [FFprobe_failed (path_name file_path) e]))) \<and>
   (find_stream data ''video'' = Inr (Some v) \<and>
    dict_get v ''r_frame_rate'' (JStr ''0/1'') = Inr (JStr (num @ ''/'' @ den)) \<and>
    all_digits num \<and> all_digits den \<and> probe_fields env data = Inr meta
      \<longrightarrow> nat_of_digits den \<noteq> 0 \<and>
          m_fps meta = of_nat (nat_of_digits num) / of_nat (nat_of_digits den))"
proof -
  have zero: "\<exists>e. get_metadata_ffprobe env file_path
                  = (None, [FFprobe_failed (path_name file_path) e])"
    if r: "run_ffprobe env file_path = Inr data"
      and v: "find_stream data ''video'' = Inr (Some v)"
      and d: "dict_get v ''r_frame_rate'' (JStr ''0/1'') = Inr (JStr (num @ ''/'' @ den))"
      and n: "all_digits num" "all_digits den" and z: "nat_of_digits den = 0"
  proof (cases "probe_fields env data")
    case (Inl e)
    with r show ?thesis by (blast intro: probe_failure_logged)
  next
    case (Inr m)
    from probe_video_rate(1) [OF v d n Inr] z show ?thesis by simp
  qed
  show ?thesis
    using probe_no_video [of data env meta] zero
      probe_video_rate [of data v num den env meta]
    by blast
qed

theorem probe_frame_rate_witness:
  "find_stream (JObj [(''streams'', JArr []), (''format'', JObj [])]) ''video'' = Inr None \<and>
   (\<exists>meta. probe_fields (sample_env []) (JObj [(''streams'', JArr []), (''format'', JObj [])])
              = Inr meta \<and> m_fps meta = 0) \<and>
   run_ffprobe (sample_env []) ''/v/still.mp4'' = Inr (sample_probe ''0/0'') \<and>
   (\<exists>e. get_metadata_ffprobe (sample_env []) ''/v/still.mp4''
           = (None, [FFprobe_failed (path_name ''/v/still.mp4'') e])) \<and>
   (\<exists>meta. probe_fields (sample_env []) (sample_probe ''30000/1001'') = Inr meta \<and>
            m_fps meta = 30000 / 1001)"
proof -
  let ?d = "JObj [(''streams'', JArr []), (''format'', JObj [])]"
  let ?v = "\<lambda>rate. JObj [(''codec_type'', JStr ''video''), (''width'', JInt 1920),
                   (''height'', JInt 1080), (''r_frame_rate'', JStr rate)]"
  obtain m0 where m0: "probe_fields (sample_env []) ?d = Inr m0"
    using no_streams_probe(2) by blast
  have a: "m_fps m0 = 0"
    using probe_frame_rate [of ?d "sample_env []" m0] no_streams_probe(1) m0 by blast
  have r: "run_ffprobe (sample_env []) ''/v/still.mp4'' = Inr (sample_probe ''0/0'')"
    by (simp add: sample_env_def)
  have b: "\<exists>e. get_metadata_ffprobe (sample_env []) ''/v/still.mp4''
           = (None, [FFprobe_failed (path_name ''/v/still.mp4'') e])"
    using probe_frame_rate [of "sample_probe ''0/0''" "sample_env []" _ "''/v/still.mp4''"
        "?v ''0/0''" "''0''" "''0''"]
      r sample_video [of "''0/0''"] sample_rate_field [of "''0/0''"] sample_digits
    by simp
  obtain m1 where m1: "probe_fields (sample_env []) (sample_probe ''30000/1001'') = Inr m1"
    using probe_fields_ntsc by blast
  have "m_fps m1 = of_nat (nat_of_digits ''30000'') / of_nat (nat_of_digits ''1001'')"
    using probe_frame_rate [of "sample_probe ''30000/1001''" "sample_env []" m1 _
        "?v ''30000/1001''" "''30000''" "''1001''"]
      sample_video [of "''30000/1001''"] sample_rate_field [of "''30000/1001''"] sample_digits m1
    by simp
  then have c: "m_fps m1 = 30000 / 1001" by (simp add: sample_digits)
  from no_streams_probe(1) m0 a r b m1 c show ?thesis by blast
qed

text \<open>
  The claim as stated, with a frame rate of 0 for a zero denominator, fails on the
  frame rate \<^verbatim>\<open>0/0\<close>: the probe of the file returns \<open>None\<close>, with ZeroDivisionError in
  the log.
\<close>

theorem zero_denominator_probe_fails:
  "run_ffprobe (sample_env []) ''/v/still.mp4'' = Inr (sample_probe ''0/0'') \<and>
   find_stream (sample_probe ''0/0'') ''video'' =
     Inr (Some (JObj [(''codec_type'', JStr ''video''), (''width'', JInt 1920),
                      (''height'', JInt 1080), (''r_frame_rate'', JStr ''0/0'')])) \<and>
   get_metadata_ffprobe (sample_env []) ''/v/still.mp4''
     = (None, [FFprobe_failed ''still.mp4'' ZeroDivisionError])"
  by (simp add: sample_video sample_ffprobe_still) (simp add: sample_env_def)

section \<open>Loading the catalog\<close>





section \<open>The catalog after an overwrite run\<close>

lemma persisted_names_overwrite:
  assumes "writable csv" and "fst (run_pool env tag all_videos) \<noteq> []"
  shows "persisted_names (fst (main env Overwrite tag all_videos csv))
           = map r_name (fst (run_pool env tag all_videos))"
  using assms
  by (simp add: persisted_names_def rows_of_def main_overwrite_content names_of_rows)

lemma twins:
  "stem ''/a/x.mp4'' = ''x''" "stem ''/b/x.mkv'' = ''x''" "stem ''/v/broken.mp4'' = ''broken''"
  by code_simp+

lemma twins_succeed:
  "filter (\<lambda>v. fst (process_single_video (sample_env [''/v/broken.mp4'']) v ''t'') \<noteq> None)
     (as_completed (sample_env [''/v/broken.mp4'']) [''/a/x.mp4'', ''/v/broken.mp4'', ''/b/x.mkv''])
   = [''/b/x.mkv'', ''/a/x.mp4'']"
proof -
  have "as_completed (sample_env [''/v/broken.mp4'']) [''/a/x.mp4'', ''/v/broken.mp4'', ''/b/x.mkv'']
          = [''/b/x.mkv'', ''/v/broken.mp4'', ''/a/x.mp4'']"
    by (simp add: sample_env_def)
  moreover have "fst (process_single_video (sample_env [''/v/broken.mp4'']) ''/a/x.mp4'' ''t'') \<noteq> None"
    by (rule sample_success) simp_all
  moreover have "fst (process_single_video (sample_env [''/v/broken.mp4'']) ''/b/x.mkv'' ''t'') \<noteq> None"
    by (rule sample_success) simp_all
  moreover have "fst (process_single_video (sample_env [''/v/broken.mp4'']) ''/v/broken.mp4'' ''t'') = None"
    by (rule sample_failure) simp_all
  ultimately show ?thesis by simp
qed

text \<open>
  Claim C5, as the code has it. After an overwrite run in which at least one unit
  succeeded and the file could be opened, the catalog is the header row followed by
  the rows of the records in \<^verbatim>\<open>info_list\<close>, whatever the file held before. The paths of
  these records are the discovered files whose unit succeeded, in the order of
  completion, each as often as it was discovered: when the order of completion is a
  rearrangement of the discovered files, the rows are one per discovered file whose
  unit succeeded. The name in each row is the stem of its file, so the names in the
  catalog are the stems of those files; nothing removes a repeated name.
\<close>

theorem overwrite_run_catalog:
  "writable csv \<and> fst (run_pool env tag all_videos) \<noteq> [] \<longrightarrow>
     content (fst (main env Overwrite tag all_videos csv)) =
       Some (Row HEADERS # map (\<lambda>r. Row (row_cells env r)) (fst (run_pool env tag all_videos))) \<and>
     map r_path (fst (run_pool env tag all_videos)) =
       filter (\<lambda>v. fst (process_single_video env v tag) \<noteq> None) (as_completed env all_videos) \<and>
     persisted_names (fst (main env Overwrite tag all_videos csv)) =
       map stem (filter (\<lambda>v. fst (process_single_video env v tag) \<noteq> None)
                   (as_completed env all_videos)) \<and>
     (mset (as_completed env all_videos) = mset all_videos \<longrightarrow>
        mset (map r_path (fst (run_pool env tag all_videos))) =
          filter_mset (\<lambda>v. fst (process_single_video env v tag) \<noteq> None) (mset all_videos))"
proof (intro impI)
  assume h: "writable csv \<and> fst (run_pool env tag all_videos) \<noteq> []"
  have a: "content (fst (main env Overwrite tag all_videos csv)) =
       Some (Row HEADERS # map (\<lambda>r. Row (row_cells env r)) (fst (run_pool env tag all_videos)))"
    using h by (simp add: main_overwrite_content)
  have b: "persisted_names (fst (main env Overwrite tag all_videos csv)) =
       map stem (filter (\<lambda>v. fst (process_single_video env v tag) \<noteq> None)
                   (as_completed env all_videos))"
    using h by (simp add: persisted_names_overwrite run_pool_names)
  have c: "mset (map r_path (fst (run_pool env tag all_videos))) =
          filter_mset (\<lambda>v. fst (process_single_video env v tag) \<noteq> None) (mset all_videos)"
    if "mset (as_completed env all_videos) = mset all_videos"
  proof -
    have "mset (map r_path (fst (run_pool env tag all_videos))) =
          filter_mset (\<lambda>v. fst (process_single_video env v tag) \<noteq> None)
            (mset (as_completed env all_videos))"
      by (simp only: run_pool_paths mset_filter)
    with that show ?thesis by simp
  qed
  from a b c run_pool_paths [of env tag all_videos]
  show "content (fst (main env Overwrite tag all_videos csv)) =
       Some (Row HEADERS # map (\<lambda>r. Row (row_cells env r)) (fst (run_pool env tag all_videos))) \<and>
     map r_path (fst (run_pool env tag all_videos)) =
       filter (\<lambda>v. fst (process_single_video env v tag) \<noteq> None) (as_completed env all_videos) \<and>
     persisted_names (fst (main env Overwrite tag all_videos csv)) =
       map stem (filter (\<lambda>v. fst (process_single_video env v tag) \<noteq> None)
                   (as_completed env all_videos)) \<and>
     (mset (as_completed env all_videos) = mset all_videos \<longrightarrow>
        mset (map r_path (fst (run_pool env tag all_videos))) =
          filter_mset (\<lambda>v. fst (process_single_video env v tag) \<noteq> None) (mset all_videos))"
    by blast
qed

theorem overwrite_run_catalog_witness:
  "writable absent_catalog \<and>
   fst (run_pool (sample_env [''/v/broken.mp4'']) ''t''
          [''/a/x.mp4'', ''/v/broken.mp4'', ''/b/x.mkv'']) \<noteq> [] \<and>
   mset (as_completed (sample_env [''/v/broken.mp4''])
           [''/a/x.mp4'', ''/v/broken.mp4'', ''/b/x.mkv''])
     = mset [''/a/x.mp4'', ''/v/broken.mp4'', ''/b/x.mkv''] \<and>
   content (fst (main (sample_env [''/v/broken.mp4'']) Overwrite ''t''
                   [''/a/x.mp4'', ''/v/broken.mp4'', ''/b/x.mkv''] absent_catalog)) =
     Some (Row HEADERS #
           map (\<lambda>r. Row (row_cells (sample_env [''/v/broken.mp4'']) r))
             (fst (run_pool (sample_env [''/v/broken.mp4'']) ''t''
                     [''/a/x.mp4'', ''/v/broken.mp4'', ''/b/x.mkv'']))) \<and>
   map r_path (fst (run_pool (sample_env [''/v/broken.mp4'']) ''t''
                      [''/a/x.mp4'', ''/v/broken.mp4'', ''/b/x.mkv'']))
     = [''/b/x.mkv'', ''/a/x.mp4''] \<and>
   persisted_names (fst (main (sample_env [''/v/broken.mp4'']) Overwrite ''t''
                           [''/a/x.mp4'', ''/v/broken.mp4'', ''/b/x.mkv''] absent_catalog))
     = [''x'', ''x''] \<and>
   mset (map r_path (fst (run_pool (sample_env [''/v/broken.mp4'']) ''t''
                            [''/a/x.mp4'', ''/v/broken.mp4'', ''/b/x.mkv''])))
     = filter_mset
         (\<lambda>v. fst (process_single_video (sample_env [''/v/broken.mp4'']) v ''t'') \<noteq> None)
         (mset [''/a/x.mp4'', ''/v/broken.mp4'', ''/b/x.mkv''])"
proof -
  let ?e = "sample_env [''/v/broken.mp4'']"
  let ?fs = "[''/a/x.mp4'', ''/v/broken.mp4'', ''/b/x.mkv'']"
  have w: "writable absent_catalog" by (simp add: absent_catalog_def)
  have p: "map r_path (fst (run_pool ?e ''t'' ?fs)) = [''/b/x.mkv'', ''/a/x.mp4'']"
    by (simp only: run_pool_paths twins_succeed)
  then have n: "fst (run_pool ?e ''t'' ?fs) \<noteq> []" by auto
  have m: "mset (as_completed ?e ?fs) = mset ?fs" by (simp add: sample_env_def)
  note t = overwrite_run_catalog [of absent_catalog ?e "''t''" ?fs]
  have c: "content (fst (main ?e Overwrite ''t'' ?fs absent_catalog)) =
     Some (Row HEADERS # map (\<lambda>r. Row (row_cells ?e r)) (fst (run_pool ?e ''t'' ?fs)))"
    using t w n by blast
  have "persisted_names (fst (main ?e Overwrite ''t'' ?fs absent_catalog)) =
          map stem (filter (\<lambda>v. fst (process_single_video ?e v ''t'') \<noteq> None)
                      (as_completed ?e ?fs))"
    using t w n by blast
  then have d: "persisted_names (fst (main ?e Overwrite ''t'' ?fs absent_catalog)) = [''x'', ''x'']"
    by (simp only: twins_succeed list.map twins)
  have f: "mset (map r_path (fst (run_pool ?e ''t'' ?fs))) =
             filter_mset (\<lambda>v. fst (process_single_video ?e v ''t'') \<noteq> None) (mset ?fs)"
    using t w n m by blast
  from w n m c p d f show ?thesis by blast
qed

text \<open>
  The claim as stated, with no duplicate names after an overwrite run, fails on two
  discovered files with one stem: \<^verbatim>\<open>/a/x.mp4\<close> and \<^verbatim>\<open>/b/x.mkv\<close> give two rows with the
  name \<^verbatim>\<open>x\<close>.
\<close>

theorem overwrite_run_repeats_a_name:
  "persisted_names (fst (main (sample_env []) Overwrite ''t'' [''/a/x.mp4'', ''/b/x.mkv'']
                           absent_catalog)) = [''x'', ''x''] \<and>
   \<not> distinct (persisted_names (fst (main (sample_env []) Overwrite ''t''
                                        [''/a/x.mp4'', ''/b/x.mkv''] absent_catalog)))"
proof -
  let ?e = "sample_env []"
  let ?fs = "[''/a/x.mp4'', ''/b/x.mkv'']"
  have a: "fst (process_single_video ?e ''/a/x.mp4'' ''t'') \<noteq> None"
    by (rule sample_success) simp_all
  have b: "fst (process_single_video ?e ''/b/x.mkv'' ''t'') \<noteq> None"
    by (rule sample_success) simp_all
  have r: "as_completed ?e ?fs = [''/b/x.mkv'', ''/a/x.mp4'']" by (simp add: sample_env_def)
  have f: "filter (\<lambda>v. fst (process_single_video ?e v ''t'') \<noteq> None) (as_completed ?e ?fs)
             = [''/b/x.mkv'', ''/a/x.mp4'']"
    by (simp only: r) (simp add: a b)
  have n: "map r_name (fst (run_pool ?e ''t'' ?fs)) = [''x'', ''x'']"
    by (simp only: run_pool_names f list.map twins)
  then have "fst (run_pool ?e ''t'' ?fs) \<noteq> []" by auto
  then have "persisted_names (fst (main ?e Overwrite ''t'' ?fs absent_catalog)) = [''x'', ''x'']"
    using persisted_names_overwrite [of absent_catalog ?e "''t''" ?fs] n
    by (simp add: absent_catalog_def)
  then show ?thesis by simp
qed

section \<open>Failures of a unit of work\<close>











section \<open>The header rule of the writer\<close>

text \<open>
  Claim C9. \<^verbatim>\<open>save_to_csv\<close> with an empty record list changes nothing and logs nothing.
  With records to write and a file that can be opened: when the file is absent or has
  length zero, the file afterwards is the header row followed by the rows of the
  records, in either mode; when the mode is append and the file has rows already, the
  file afterwards is the old rows followed by the rows of the records, with no header
  row written.
\<close>

theorem save_to_csv_header_rule:
  "save_to_csv env [] csv mode = (csv, []) \<and>
   (data_list \<noteq> [] \<and> writable csv \<and> (content csv = None \<or> content csv = Some []) \<longrightarrow>
      content (fst (save_to_csv env data_list csv mode)) =
        Some (Row HEADERS # map (\<lambda>r. Row (row_cells env r)) data_list)) \<and>
   (data_list \<noteq> [] \<and> writable csv \<and> content csv = Some old \<and> old \<noteq> [] \<longrightarrow>
      content (fst (save_to_csv env data_list csv Append)) =
        Some (old @ map (\<lambda>r. Row (row_cells env r)) data_list))"
  by (cases mode) (auto simp: save_to_csv_def)

theorem save_to_csv_header_rule_witness:
  "content absent_catalog = None \<and> writable absent_catalog \<and>
   content (fst (save_to_csv (sample_env []) [foo_record] absent_catalog Append)) =
     Some [Row HEADERS, Row (row_cells (sample_env []) foo_record)] \<and>
   content (fst (save_to_csv (sample_env []) [foo_record]
                   (absent_catalog \<lparr> content := Some [] \<rparr>) Append)) =
     Some [Row HEADERS, Row (row_cells (sample_env []) foo_record)] \<and>
   content (fst (save_to_csv (sample_env []) [foo_record]
                   (absent_catalog \<lparr> content := Some [Row HEADERS] \<rparr>) Append)) =
     Some [Row HEADERS, Row (row_cells (sample_env []) foo_record)] \<and>
   content (fst (save_to_csv (sample_env []) [foo_record]
                   (absent_catalog \<lparr> content := Some [Row [''x'']] \<rparr>) Append)) =
     Some [Row [''x''], Row (row_cells (sample_env []) foo_record)]"
proof -
  have a: "content absent_catalog = None" "writable absent_catalog"
    by (simp_all add: absent_catalog_def)
  have b: "content (fst (save_to_csv (sample_env []) [foo_record] absent_catalog Append)) =
     Some [Row HEADERS, Row (row_cells (sample_env []) foo_record)]"
    using save_to_csv_header_rule [of "sample_env []" absent_catalog Append "[foo_record]"] a
    by simp
  have c: "content (fst (save_to_csv (sample_env []) [foo_record]
                   (absent_catalog \<lparr> content := Some [] \<rparr>) Append)) =
     Some [Row HEADERS, Row (row_cells (sample_env []) foo_record)]"
    using save_to_csv_header_rule [of "sample_env []" "absent_catalog \<lparr> content := Some [] \<rparr>"
        Append "[foo_record]"] a
    by simp
  have d: "content (fst (save_to_csv (sample_env []) [foo_record]
                   (absent_catalog \<lparr> content := Some [Row HEADERS] \<rparr>) Append)) =
     Some [Row HEADERS, Row (row_cells (sample_env []) foo_record)]"
    using save_to_csv_header_rule [of "sample_env []"
        "absent_catalog \<lparr> content := Some [Row HEADERS] \<rparr>" Append "[foo_record]" "[Row HEADERS]"] a
    by simp
  have e: "content (fst (save_to_csv (sample_env []) [foo_record]
                   (absent_catalog \<lparr> content := Some [Row [''x'']] \<rparr>) Append)) =
     Some [Row [''x''], Row (row_cells (sample_env []) foo_record)]"
    using save_to_csv_header_rule [of "sample_env []"
        "absent_catalog \<lparr> content := Some [Row [''x'']] \<rparr>" Append "[foo_record]" "[Row [''x'']]"] a
    by simp
  from a b c d e show ?thesis by simp
qed

section \<open>Sizes of one tebibyte and more\<close>

text \<open>
  Claim C10. For a size of at least \<open>1024^4\<close> bytes \<^verbatim>\<open>format_size\<close> returns \<open>None\<close>: the
  loop over the four units ends without a return. For a size below \<open>1024^4\<close> it
  returns a string: the size divided by \<open>1024^k\<close> with one decimal, a space, and the
  \<open>k\<close>-th of the units B, KB, MB, GB. A record built for a file whose stat reports at
  least \<open>1024^4\<close> bytes therefore has \<open>None\<close> in its size field.
\<close>

theorem format_size_one_tebibyte:
  "(1024 ^ 4 \<le> size_bytes \<longrightarrow> format_size size_bytes = None) \<and>
   (size_bytes < 1024 ^ 4 \<longrightarrow>
      (\<exists>k. k < 4 \<and> format_size size_bytes =
         Some (format_fixed 1 (of_int size_bytes / 1024 ^ k) @ '' ''
               @ [''B'', ''KB'', ''MB'', ''GB''] ! k))) \<and>
   (os_stat env path_video = Inr st \<and> 1024 ^ 4 \<le> st_size st \<and>
    fst (process_single_video env path_video tag) = Some r \<longrightarrow> r_size r = None)"
proof (intro conjI impI)
  assume "1024 ^ 4 \<le> size_bytes"
  then show "format_size size_bytes = None" by (simp add: format_size_unfold)
next
  assume lt: "size_bytes < 1024 ^ 4"
  let ?P = "\<lambda>k. k < (4::nat) \<and> format_size size_bytes =
         Some (format_fixed 1 (of_int size_bytes / 1024 ^ k) @ '' ''
               @ [''B'', ''KB'', ''MB'', ''GB''] ! k)"
  consider "size_bytes < 1024" | "1024 \<le> size_bytes" "size_bytes < 1024 ^ 2"
    | "1024 ^ 2 \<le> size_bytes" "size_bytes < 1024 ^ 3" | "1024 ^ 3 \<le> size_bytes"
    by linarith
  then show "\<exists>k. ?P k"
  proof cases
    case 1
    then have "?P 0" by (simp add: format_size_unfold)
    then show ?thesis ..
  next
    case 2
    then have "?P 1" by (simp add: format_size_unfold)
    then show ?thesis ..
  next
    case 3
    then have "?P 2" by (simp add: format_size_unfold power2_eq_square)
    then show ?thesis ..
  next
    case 4
    with lt have "?P 3" by (simp add: format_size_unfold power3_eq_cube)
    then show ?thesis ..
  qed
next
  assume h: "os_stat env path_video = Inr st \<and> 1024 ^ 4 \<le> st_size st \<and>
    fst (process_single_video env path_video tag) = Some r"
  then have "r_size r = format_size (st_size st)" using process_size by blast
  with h show "r_size r = None" by (simp add: format_size_unfold)
qed

theorem format_size_one_tebibyte_witness:
  "(1024::int) ^ 4 \<le> 1024 ^ 4 \<and> format_size (1024 ^ 4) = None \<and>
   (1536::int) < 1024 ^ 4 \<and>
   (\<exists>k. k < 4 \<and> format_size 1536 =
         Some (format_fixed 1 (of_int 1536 / 1024 ^ k) @ '' '' @ [''B'', ''KB'', ''MB'', ''GB''] ! k)) \<and>
   format_size 1536 = Some ''1.5 KB'' \<and>
   (\<exists>st r. os_stat (sample_env []) ''/v/huge.mkv'' = Inr st \<and> 1024 ^ 4 \<le> st_size st \<and>
      fst (process_single_video (sample_env []) ''/v/huge.mkv'' ''t'') = Some r \<and> r_size r = None)"
proof -
  have a: "format_size (1024 ^ 4) = None"
    using format_size_one_tebibyte [of "1024 ^ 4"] by simp
  have b: "\<exists>k. k < 4 \<and> format_size 1536 =
         Some (format_fixed 1 (of_int 1536 / 1024 ^ k) @ '' '' @ [''B'', ''KB'', ''MB'', ''GB''] ! k)"
    using format_size_one_tebibyte [of 1536] by simp
  have c: "format_size 1536 = Some ''1.5 KB''" by (rule foo_pieces)
  have s: "os_stat (sample_env []) ''/v/huge.mkv''
             = Inr \<lparr> st_size = 1024 ^ 4, create_time_text = ''2024/01/02 03:04'' \<rparr>"
    by (simp add: sample_stat)
  obtain r where r: "fst (process_single_video (sample_env []) ''/v/huge.mkv'' ''t'') = Some r"
    using sample_success [of "''/v/huge.mkv''" "[]" "''t''"] by auto
  have "r_size r = None"
    using format_size_one_tebibyte [of _ "sample_env []" "''/v/huge.mkv''"
        "\<lparr> st_size = 1024 ^ 4, create_time_text = ''2024/01/02 03:04'' \<rparr>" "''t''" r] s r
    by simp
  with s r have d: "\<exists>st r. os_stat (sample_env []) ''/v/huge.mkv'' = Inr st \<and> 1024 ^ 4 \<le> st_size st \<and>
      fst (process_single_video (sample_env []) ''/v/huge.mkv'' ''t'') = Some r \<and> r_size r = None"
    by auto
  from a b c d show ?thesis by simp
qed

end
